theory Spec2Isabelle
  imports Main "HOL-Library.Word"
begin

unbundle bit_operations_syntax

section \<open>ostree-remount: src/switchroot/ostree-remount.c\<close>

subsection \<open>Constants of the system headers\<close>

text \<open>
  The program uses macros of \<^verbatim>\<open>sys/stat.h\<close>, \<^verbatim>\<open>sys/statvfs.h\<close>,
  \<^verbatim>\<open>sys/mount.h\<close>, \<^verbatim>\<open>errno.h\<close> and \<^verbatim>\<open>stdlib.h\<close>. They are not part of the
  repository; the values below are those of Linux/glibc. \<^verbatim>\<open>st_mode\<close> is a 32-bit
  \<^verbatim>\<open>mode_t\<close>, \<^verbatim>\<open>f_flag\<close> and the \<^verbatim>\<open>mountflags\<close> argument of \<^verbatim>\<open>mount(2)\<close> are
  \<^verbatim>\<open>unsigned long\<close> (64 bits), the \<^verbatim>\<open>MS_*\<close> constants and the local \<^verbatim>\<open>mnt_flags\<close>
  are \<^verbatim>\<open>int\<close> (32 bits).
\<close>

type_synonym mode_t = "32 word"
type_synonym ulong = "64 word"
type_synonym cint = "32 word"

definition S_IFMT :: mode_t where "S_IFMT = 0xF000"
definition S_IFLNK :: mode_t where "S_IFLNK = 0xA000"

definition S_ISLNK :: "mode_t \<Rightarrow> bool" where
  "S_ISLNK m = (m AND S_IFMT = S_IFLNK)"

definition ST_RDONLY :: ulong where "ST_RDONLY = 1"

definition MS_RDONLY :: cint where "MS_RDONLY = 1"
definition MS_REMOUNT :: cint where "MS_REMOUNT = 32"
definition MS_BIND :: cint where "MS_BIND = 4096"
definition MS_REC :: cint where "MS_REC = 16384"
definition MS_SILENT :: cint where "MS_SILENT = 32768"
definition MS_PRIVATE :: cint where "MS_PRIVATE = 262144"

definition EINVAL :: int where "EINVAL = 22"
definition EXIT_SUCCESS :: int where "EXIT_SUCCESS = 0"
definition EXIT_FAILURE :: int where "EXIT_FAILURE = 1"

subsection \<open>The environment\<close>

text \<open>
  A loaded \<^verbatim>\<open>GKeyFile\<close> is represented by what \<^verbatim>\<open>g_key_file_get_boolean\<close> answers
  for each group and key (GLib answers \<^verbatim>\<open>FALSE\<close> for a missing or malformed value).
\<close>

type_synonym GKeyFile = "string \<Rightarrow> string \<Rightarrow> bool"

definition g_key_file_get_boolean :: "GKeyFile \<Rightarrow> string \<Rightarrow> string \<Rightarrow> bool" where
  "g_key_file_get_boolean keyfile group_name key = keyfile group_name key"

text \<open>
  Everything the program asks of the operating system and of its libraries, over a
  state \<open>'k\<close> of the system (mount table and file system) that is left abstract.
  A query returns \<open>None\<close> where the C call fails (\<^verbatim>\<open>lstat\<close> negative, \<^verbatim>\<open>statvfs\<close>
  equal to -1, \<^verbatim>\<open>g_key_file_load_from_file\<close> false); \<^verbatim>\<open>mount\<close> returns the
  \<^verbatim>\<open>errno\<close> on failure (\<open>Inl\<close>) or the changed system state (\<open>Inr\<close>). The arguments
  of \<open>k_mount\<close> are source, target and mountflags; the file system type and the data
  are \<^verbatim>\<open>NULL\<close> in every call of the program.
\<close>

text \<open>
  Modelled from the spec: \<^verbatim>\<open>touch_run_ostree\<close> and \<^verbatim>\<open>path_is_on_readonly_fs\<close>, which
  \<^verbatim>\<open>main\<close> calls, are defined in \<^verbatim>\<open>ostree-mount-util.h\<close>, and that header is not among
  the sources. The spec has the first as an idempotent step that creates a marker file
  and the second as a probe that answers whether the file system of a path is currently
  read-only. They are the last two fields of the record, parameters like the system
  calls: the first may change the system state in any way, the second may give any
  answer.
\<close>

record 'k kernel =
  k_lstat :: "'k \<Rightarrow> string \<Rightarrow> mode_t option"
  k_statvfs :: "'k \<Rightarrow> string \<Rightarrow> ulong option"
  k_mount :: "'k \<Rightarrow> string \<Rightarrow> string \<Rightarrow> ulong \<Rightarrow> int + 'k"
  k_stat :: "'k \<Rightarrow> string \<Rightarrow> bool"
  k_key_file_load_from_file :: "'k \<Rightarrow> string \<Rightarrow> GKeyFile option"
  k_touch_run_ostree :: "'k \<Rightarrow> 'k"
  k_path_is_on_readonly_fs :: "'k \<Rightarrow> string \<Rightarrow> bool"

text \<open>
  The calls the process makes, in order, each with its arguments and its answer
  (for \<open>Mount\<close>: \<open>None\<close> on success, the \<^verbatim>\<open>errno\<close> on failure).
\<close>

datatype call =
    TouchRunOstree
  | Lstat string "mode_t option"
  | Statvfs string "ulong option"
  | Mount string string ulong "int option"
  | PathIsOnReadonlyFs string bool
  | Stat string bool
  | KeyFileLoadFromFile string bool
  | KeyFileGetBoolean string string bool

text \<open>
  The state of the process: the system state, the calls made so far, the bytes written
  to standard output, and the messages written to standard error by \<^verbatim>\<open>err\<close> and
  \<^verbatim>\<open>perror\<close>, each a formatted message paired with the \<^verbatim>\<open>errno\<close> whose text the C
  library appends.
\<close>

record 'k proc =
  kern :: 'k
  trace :: "call list"
  stdout :: string
  stderr :: "(string \<times> int) list"

text \<open>A function either returns to its caller or ends the process with an exit status.\<close>

datatype 's run = Return 's | Exit int 's

fun then_run :: "'s run \<Rightarrow> ('s \<Rightarrow> 's run) \<Rightarrow> 's run" where
  "then_run (Return s) f = f s"
| "then_run (Exit c s) f = Exit c s"

fun final :: "'s run \<Rightarrow> 's" where
  "final (Return s) = s"
| "final (Exit c s) = s"

fun exit_status :: "'s run \<Rightarrow> int option" where
  "exit_status (Return s) = None"
| "exit_status (Exit c s) = Some c"

definition called :: "call \<Rightarrow> 'k proc \<Rightarrow> 'k proc" where
  "called c s = s\<lparr>trace := trace s @ [c]\<rparr>"

definition newline :: string where
  "newline = [CHR 0x0A]"

subsection \<open>do_remount\<close>

text \<open>The text \<^verbatim>\<open>writable ? "rw" : "ro"\<close> of lines 76 and 81.\<close>

definition rw_or_ro :: "bool \<Rightarrow> string" where
  "rw_or_ro writable = (if writable then ''rw'' else ''ro'')"

text \<open>Lines 67-69: the value of \<^verbatim>\<open>mnt_flags\<close> when \<^verbatim>\<open>mount\<close> is called.\<close>

definition remount_flags :: "bool \<Rightarrow> cint" where
  "remount_flags writable =
     (let mnt_flags = MS_REMOUNT OR MS_SILENT
      in if \<not> writable then mnt_flags OR MS_RDONLY else mnt_flags)"

text \<open>
  Lines 46-82. Each call is recorded with its answer as it is made; \<^verbatim>\<open>err\<close> ends the
  process with the status it is given.
\<close>

definition do_remount :: "'k kernel \<Rightarrow> string \<Rightarrow> bool \<Rightarrow> 'k proc \<Rightarrow> 'k proc run" where
  "do_remount K target writable s =
     (case k_lstat K (kern s) target of
        None \<Rightarrow> Return (called (Lstat target None) s)
      | Some st_mode \<Rightarrow>
          let s1 = called (Lstat target (Some st_mode)) s in
          if S_ISLNK st_mode then Return s1
          else
            (case k_statvfs K (kern s1) target of
               None \<Rightarrow> Return (called (Statvfs target None) s1)
             | Some f_flag \<Rightarrow>
                 let s2 = called (Statvfs target (Some f_flag)) s1;
                     currently_writable = (f_flag AND ST_RDONLY = 0)
                 in
                 if writable = currently_writable then Return s2
                 else
                   let mnt_flags = remount_flags writable in
                   (case k_mount K (kern s2) target target (scast mnt_flags) of
                      Inl errno \<Rightarrow>
                        let s3 = called (Mount target target (scast mnt_flags) (Some errno)) s2 in
                        if errno \<noteq> EINVAL
                        then Exit EXIT_FAILURE
                               (s3\<lparr>stderr := stderr s3 @
                                  [(''failed to remount('' @ rw_or_ro writable @ '') '' @ target,
                                    errno)]\<rparr>)
                        else Return s3
                    | Inr k' \<Rightarrow>
                        let s3 = called (Mount target target (scast mnt_flags) None) s2 in
                        Return (s3\<lparr>kern := k',
                                   stdout := stdout s3 @ ''Remounted '' @ rw_or_ro writable @
                                             '': '' @ target @ newline\<rparr>))))"

subsection \<open>sysroot_is_configured_ro\<close>

definition config_path :: string where
  "config_path = ''/ostree/repo/config''"

definition ignoring_notice :: string where
  "ignoring_notice =
     ''Ignoring sysroot.readonly config; see https://github.com/coreos/fedora-coreos-tracker/issues/488.''"

text \<open>Lines 84-100. Every path returns false; \<^verbatim>\<open>puts\<close> writes the notice and a newline.\<close>

definition sysroot_is_configured_ro :: "'k kernel \<Rightarrow> 'k proc \<Rightarrow> bool \<times> 'k proc" where
  "sysroot_is_configured_ro K s =
     (if \<not> k_stat K (kern s) config_path
      then (False, called (Stat config_path False) s)
      else
        let s1 = called (Stat config_path True) s in
        (case k_key_file_load_from_file K (kern s1) config_path of
           None \<Rightarrow> (False, called (KeyFileLoadFromFile config_path False) s1)
         | Some keyfile \<Rightarrow>
             let s2 = called (KeyFileLoadFromFile config_path True) s1;
                 b = g_key_file_get_boolean keyfile ''sysroot'' ''readonly'';
                 s3 = called (KeyFileGetBoolean ''sysroot'' ''readonly'' b) s2;
                 s4 = (if b then s3\<lparr>stdout := stdout s3 @ ignoring_notice @ newline\<rparr> else s3)
             in (False, s4)))"

subsection \<open>main\<close>

text \<open>The process starts with no call made and nothing written.\<close>

definition start :: "'k \<Rightarrow> 'k proc" where
  "start k = \<lparr>kern = k, trace = [], stdout = [], stderr = []\<rparr>"

text \<open>Line 108: \<^verbatim>\<open>touch_run_ostree ()\<close>.\<close>

definition touch_run_ostree :: "'k kernel \<Rightarrow> 'k proc \<Rightarrow> 'k proc" where
  "touch_run_ostree K s = (called TouchRunOstree s)\<lparr>kern := k_touch_run_ostree K (kern s)\<rparr>"

text \<open>Lines 116-117: \<^verbatim>\<open>/sysroot\<close> is made private; a failure is only a warning.\<close>

definition privatize_sysroot :: "'k kernel \<Rightarrow> 'k proc \<Rightarrow> 'k proc" where
  "privatize_sysroot K s =
     (case k_mount K (kern s) ''none'' ''/sysroot'' (scast (MS_REC OR MS_PRIVATE)) of
        Inl errno \<Rightarrow>
          (called (Mount ''none'' ''/sysroot'' (scast (MS_REC OR MS_PRIVATE)) (Some errno)) s)
            \<lparr>stderr := stderr s @ [(''warning: While remounting /sysroot MS_PRIVATE'', errno)]\<rparr>
      | Inr k' \<Rightarrow>
          (called (Mount ''none'' ''/sysroot'' (scast (MS_REC OR MS_PRIVATE)) None) s)
            \<lparr>kern := k'\<rparr>)"

text \<open>Lines 143-144: \<^verbatim>\<open>/etc\<close> is made a bind mount of itself; a failure is fatal.\<close>

definition bind_mount_etc :: "'k kernel \<Rightarrow> 'k proc \<Rightarrow> 'k proc run" where
  "bind_mount_etc K s =
     (case k_mount K (kern s) ''/etc'' ''/etc'' (scast MS_BIND) of
        Inl errno \<Rightarrow>
          Exit EXIT_FAILURE
            ((called (Mount ''/etc'' ''/etc'' (scast MS_BIND) (Some errno)) s)
               \<lparr>stderr := stderr s @ [(''failed to make /etc a bind mount'', errno)]\<rparr>)
      | Inr k' \<Rightarrow>
          Return ((called (Mount ''/etc'' ''/etc'' (scast MS_BIND) None) s)\<lparr>kern := k'\<rparr>))"

text \<open>
  Lines 135-160: the rest of \<^verbatim>\<open>main\<close> once the local \<^verbatim>\<open>sysroot_readonly\<close> has its
  value.
\<close>

definition main_remounts :: "'k kernel \<Rightarrow> bool \<Rightarrow> 'k proc \<Rightarrow> 'k proc run" where
  "main_remounts K sysroot_readonly s =
     then_run (do_remount K ''/sysroot'' (\<not> sysroot_readonly) s) (\<lambda>s.
     then_run (if sysroot_readonly
               then then_run (bind_mount_etc K s) (do_remount K ''/etc'' True)
               else Return s) (\<lambda>s.
     then_run (do_remount K ''/var'' True s) (\<lambda>s.
     Exit EXIT_SUCCESS s)))"

text \<open>Lines 102-161, from the system state \<open>k\<close> in which the process starts.\<close>

definition main :: "'k kernel \<Rightarrow> 'k \<Rightarrow> 'k proc run" where
  "main K k =
     (let s = touch_run_ostree K (start k);
          s = privatize_sysroot K s
      in
      if k_path_is_on_readonly_fs K (kern s) ''/''
      then Exit EXIT_SUCCESS (called (PathIsOnReadonlyFs ''/'' True) s)
      else
        let s = called (PathIsOnReadonlyFs ''/'' False) s;
            (sysroot_readonly, s) = sysroot_is_configured_ro K s
        in main_remounts K sysroot_readonly s)"

subsection \<open>Reading a run\<close>

text \<open>The calls a function made, given the state it started from and the one it reached.\<close>

definition new_calls :: "'k proc \<Rightarrow> 'k proc \<Rightarrow> call list" where
  "new_calls s s' = drop (length (trace s)) (trace s')"

fun is_mount :: "call \<Rightarrow> bool" where
  "is_mount (Mount src tgt fl r) = True"
| "is_mount c = False"

text \<open>A remount is a \<^verbatim>\<open>mount\<close> call whose flags contain \<^verbatim>\<open>MS_REMOUNT\<close>.\<close>

fun is_remount :: "call \<Rightarrow> bool" where
  "is_remount (Mount src tgt fl r) = (fl AND scast MS_REMOUNT \<noteq> 0)"
| "is_remount c = False"

text \<open>An applied remount is a remount that the system accepted.\<close>

fun is_applied_remount :: "call \<Rightarrow> bool" where
  "is_applied_remount (Mount src tgt fl r) = (fl AND scast MS_REMOUNT \<noteq> 0 \<and> r = None)"
| "is_applied_remount c = False"

text \<open>A remount to read-only: the flags contain \<^verbatim>\<open>MS_REMOUNT\<close> and \<^verbatim>\<open>MS_RDONLY\<close>.\<close>

fun is_readonly_remount :: "call \<Rightarrow> bool" where
  "is_readonly_remount (Mount src tgt fl r) =
     (fl AND scast MS_REMOUNT \<noteq> 0 \<and> fl AND scast MS_RDONLY \<noteq> 0)"
| "is_readonly_remount c = False"

text \<open>The path a call is about, where it has one.\<close>

fun call_path :: "call \<Rightarrow> string option" where
  "call_path (Lstat p r) = Some p"
| "call_path (Statvfs p r) = Some p"
| "call_path (Mount src tgt fl r) = Some tgt"
| "call_path (PathIsOnReadonlyFs p r) = Some p"
| "call_path (Stat p r) = Some p"
| "call_path (KeyFileLoadFromFile p r) = Some p"
| "call_path c = None"

text \<open>The calls that read the configuration file.\<close>

fun is_config_call :: "call \<Rightarrow> bool" where
  "is_config_call (Stat p r) = True"
| "is_config_call (KeyFileLoadFromFile p r) = True"
| "is_config_call (KeyFileGetBoolean g key r) = True"
| "is_config_call c = False"

text \<open>
  What \<^verbatim>\<open>path_is_on_readonly_fs ("/")\<close> answers on line 119 of a run that starts in
  system state \<open>k\<close>: the probe sees the system after lines 108 and 116.
\<close>

definition root_found_readonly :: "'k kernel \<Rightarrow> 'k \<Rightarrow> bool" where
  "root_found_readonly K k =
     k_path_is_on_readonly_fs K (kern (privatize_sysroot K (touch_run_ostree K (start k)))) ''/''"

text \<open>
  The status line as the spec words it, \<^verbatim>\<open>Remounted <path>: <rw|ro>\<close>, for comparison
  with the line that \<^verbatim>\<open>do_remount\<close> prints.
\<close>

definition spec_remounted_line :: "string \<Rightarrow> bool \<Rightarrow> string" where
  "spec_remounted_line path writable =
     ''Remounted '' @ path @ '': '' @ rw_or_ro writable @ newline"

text \<open>
  The calls of one run of \<^verbatim>\<open>do_remount (p, w)\<close>, as they can be read off a list of
  calls: the list starts with the \<^verbatim>\<open>lstat\<close> of \<open>p\<close>; every call in it is an
  \<^verbatim>\<open>lstat\<close> or \<^verbatim>\<open>statvfs\<close> of \<open>p\<close> or a \<^verbatim>\<open>mount\<close> of \<open>p\<close> onto itself with the
  flags for \<open>w\<close>; and where \<^verbatim>\<open>statvfs\<close> answered, a \<^verbatim>\<open>mount\<close> call is in the list
  exactly when the reported writability differs from \<open>w\<close>. The third argument of
  \<open>remount_call_ok\<close> says whether the list has a \<^verbatim>\<open>mount\<close> call.
\<close>

fun remount_call_ok :: "string \<Rightarrow> bool \<Rightarrow> bool \<Rightarrow> call \<Rightarrow> bool" where
  "remount_call_ok p w m (Lstat q r) = (q = p)"
| "remount_call_ok p w m (Statvfs q r) =
     (q = p \<and> (case r of None \<Rightarrow> True | Some f \<Rightarrow> (w = (f AND ST_RDONLY = 0)) = (\<not> m)))"
| "remount_call_ok p w m (Mount src tgt fl r) =
     (src = p \<and> tgt = p \<and> fl = scast (remount_flags w))"
| "remount_call_ok p w m c = False"

fun remount_calls :: "string \<Rightarrow> bool \<Rightarrow> call list \<Rightarrow> bool" where
  "remount_calls p w (Lstat q r # cs) =
     list_all (remount_call_ok p w (list_ex is_mount cs)) (Lstat q r # cs)"
| "remount_calls p w cs = False"

text \<open>
  The calls of the \<^verbatim>\<open>/etc\<close> step of lines 143-145: first the bind mount of \<^verbatim>\<open>/etc\<close>
  onto itself; nothing more if it failed, and the calls of
  \<^verbatim>\<open>do_remount ("/etc", true)\<close> if it succeeded.
\<close>

fun etc_calls :: "call list \<Rightarrow> bool" where
  "etc_calls (Mount src tgt fl r # cs) =
     (src = ''/etc'' \<and> tgt = ''/etc'' \<and> fl = scast MS_BIND
      \<and> (case r of Some e \<Rightarrow> cs = [] | None \<Rightarrow> remount_calls ''/etc'' True cs))"
| "etc_calls cs = False"

subsection \<open>A small system for concrete runs\<close>

text \<open>
  A system state for evaluating the program on concrete inputs: the paths whose file
  system is read-only, the mount points, the symbolic links, the paths that do not
  exist, the mount points whose remount is refused with \<^verbatim>\<open>EPERM\<close>, and the value of
  \<^verbatim>\<open>readonly\<close> in group \<^verbatim>\<open>sysroot\<close> of the configuration file (\<open>None\<close>: no file).
  Its \<^verbatim>\<open>mount\<close> accepts every call without \<^verbatim>\<open>MS_REMOUNT\<close> (32), and \<^verbatim>\<open>MS_BIND\<close> (4096)
  makes the target a mount point; a remount fails with \<^verbatim>\<open>EINVAL\<close> (22) on a path that is
  no mount point and with \<^verbatim>\<open>EPERM\<close> (1) where it is refused, and otherwise sets the
  target read-only or writable as \<^verbatim>\<open>MS_RDONLY\<close> (1) says.
\<close>

record toy =
  t_readonly :: "string list"
  t_mountpoints :: "string list"
  t_symlinks :: "string list"
  t_missing :: "string list"
  t_refused :: "string list"
  t_config :: "bool option"

definition toy_mount :: "toy \<Rightarrow> string \<Rightarrow> string \<Rightarrow> ulong \<Rightarrow> int + toy" where
  "toy_mount k src tgt fl =
     (if fl AND 32 = 0 then
        (if fl AND 4096 \<noteq> 0 then Inr (k\<lparr>t_mountpoints := tgt # t_mountpoints k\<rparr>) else Inr k)
      else if tgt \<notin> set (t_mountpoints k) then Inl 22
      else if tgt \<in> set (t_refused k) then Inl 1
      else if fl AND 1 \<noteq> 0 then Inr (k\<lparr>t_readonly := tgt # t_readonly k\<rparr>)
      else Inr (k\<lparr>t_readonly := removeAll tgt (t_readonly k)\<rparr>))"

definition toy_kernel :: "toy kernel" where
  "toy_kernel =
     \<lparr>k_lstat = (\<lambda>k p. if p \<in> set (t_missing k) then None
                       else if p \<in> set (t_symlinks k) then Some 0xA1FF
                       else Some 0x41ED),
      k_statvfs = (\<lambda>k p. Some (if p \<in> set (t_readonly k) then 1 else 0)),
      k_mount = toy_mount,
      k_stat = (\<lambda>k p. case t_config k of None \<Rightarrow> False | Some b \<Rightarrow> True),
      k_key_file_load_from_file =
        (\<lambda>k p. case t_config k of None \<Rightarrow> None
                | Some b \<Rightarrow> Some (\<lambda>g key. g = ''sysroot'' \<and> key = ''readonly'' \<and> b)),
      k_touch_run_ostree = (\<lambda>k. k),
      k_path_is_on_readonly_fs = (\<lambda>k p. p \<in> set (t_readonly k))\<rparr>"

text \<open>\<^verbatim>\<open>/var\<close> is a read-only mount point; there is no configuration file.\<close>

definition toy_var_ro :: toy where
  "toy_var_ro =
     \<lparr>t_readonly = [''/var''], t_mountpoints = [''/sysroot'', ''/var''], t_symlinks = [],
      t_missing = [], t_refused = [], t_config = None\<rparr>"

text \<open>As before, but the system refuses the remount of \<^verbatim>\<open>/var\<close> with \<^verbatim>\<open>EPERM\<close>.\<close>

definition toy_var_refused :: toy where
  "toy_var_refused = toy_var_ro\<lparr>t_refused := [''/var'']\<rparr>"

text \<open>\<^verbatim>\<open>/sysroot\<close> lies on a read-only file system and nothing is a mount point.\<close>

definition toy_sysroot_plain :: toy where
  "toy_sysroot_plain = toy_var_ro\<lparr>t_readonly := [''/sysroot''], t_mountpoints := []\<rparr>"

text \<open>
  The same system, except that \<^verbatim>\<open>mount\<close> accepts every call and changes nothing: a
  remount succeeds, and \<^verbatim>\<open>statvfs\<close> reports afterwards what it reported before.
\<close>

definition sticky_kernel :: "toy kernel" where
  "sticky_kernel = toy_kernel\<lparr>k_mount := \<lambda>k src tgt fl. Inr k\<rparr>"

section \<open>Properties\<close>

subsection \<open>Auxiliary facts\<close>

lemmas hdr_defs = S_ISLNK_def S_IFMT_def S_IFLNK_def ST_RDONLY_def MS_RDONLY_def MS_REMOUNT_def
  MS_BIND_def MS_REC_def MS_SILENT_def MS_PRIVATE_def EINVAL_def EXIT_SUCCESS_def EXIT_FAILURE_def

lemmas toy_defs = toy_kernel_def toy_mount_def toy_var_ro_def toy_var_refused_def
  toy_sysroot_plain_def start_def

lemma start_simps:
  "kern (start k) = k" "trace (start k) = []" "stdout (start k) = []" "stderr (start k) = []"
  by (simp_all add: start_def)

lemma trace_called: "trace (called c s) = trace s @ [c]"
  by (simp add: called_def)

lemma kern_called: "kern (called c s) = kern s"
  by (simp add: called_def)

lemma stdout_called: "stdout (called c s) = stdout s"
  by (simp add: called_def)

lemma stderr_called: "stderr (called c s) = stderr s"
  by (simp add: called_def)

lemmas called_simps = trace_called kern_called stdout_called stderr_called

text \<open>The two values of the flags, as the \<^verbatim>\<open>unsigned long\<close> that \<^verbatim>\<open>mount\<close> receives.\<close>

lemma scast_flags: "(scast (remount_flags w) :: ulong) = (if w then 32800 else 32801)"
  by (simp add: remount_flags_def hdr_defs)

lemma private_flags: "(scast (MS_REC OR MS_PRIVATE) :: ulong) = 278528"
  by (simp add: hdr_defs)

lemma touch_run_ostree_simps:
  "trace (touch_run_ostree K s) = trace s @ [TouchRunOstree]"
  "stdout (touch_run_ostree K s) = stdout s"
  "stderr (touch_run_ostree K s) = stderr s"
  by (simp_all add: touch_run_ostree_def called_simps)

lemma privatize_sysroot_trace:
  "\<exists>r. trace (privatize_sysroot K s) =
          trace s @ [Mount ''none'' ''/sysroot'' (scast (MS_REC OR MS_PRIVATE)) r]"
  by (simp add: privatize_sysroot_def called_simps split: sum.splits)

lemma privatize_sysroot_stdout: "stdout (privatize_sysroot K s) = stdout s"
  by (simp add: privatize_sysroot_def called_simps split: sum.splits)

subsection \<open>The calls of a run\<close>

lemma do_remount_trace:
  "trace (final (do_remount K t w s)) = trace s @ new_calls s (final (do_remount K t w s))"
  by (simp add: do_remount_def Let_def called_simps new_calls_def split: option.splits sum.splits)

lemma do_remount_Exit:
  assumes "do_remount K t w s = Exit c s'"
  shows "c = EXIT_FAILURE \<and> kern s' = kern s \<and> stdout s' = stdout s
         \<and> (\<exists>e. e \<noteq> EINVAL
                \<and> last (trace s') = Mount t t (scast (remount_flags w)) (Some e)
                \<and> stderr s' = stderr s @ [(''failed to remount('' @ rw_or_ro w @ '') '' @ t, e)])"
  using assms
  by (auto simp add: do_remount_def Let_def called_simps split: option.splits sum.splits if_splits)

lemma do_remount_Return:
  assumes "do_remount K t w s = Return s'"
  shows "stderr s' = stderr s
         \<and> (\<forall>src tgt fl e. Mount src tgt fl (Some e) \<in> set (new_calls s s') \<longrightarrow> e = EINVAL)"
  using assms
  by (auto simp add: do_remount_def Let_def called_simps new_calls_def
           split: option.splits sum.splits if_splits)

lemma do_remount_Mount_last:
  assumes "Mount src tgt fl r \<in> set (new_calls s (final (do_remount K t w s)))"
  shows "src = t \<and> tgt = t \<and> last (trace (final (do_remount K t w s))) = Mount src tgt fl r"
  using assms
  by (auto simp add: do_remount_def Let_def called_simps new_calls_def
           split: option.splits sum.splits if_splits)

lemma do_remount_Lstat:
  "\<exists>r. Lstat t r \<in> set (new_calls s (final (do_remount K t w s)))"
  by (auto simp add: do_remount_def Let_def called_simps new_calls_def
           split: option.splits sum.splits if_splits)

lemma do_remount_calls:
  "remount_calls t w (new_calls s (final (do_remount K t w s)))"
  by (auto simp add: do_remount_def Let_def called_simps new_calls_def
           split: option.splits sum.splits if_splits)

lemma remount_calls_not_Nil: "remount_calls p w cs \<Longrightarrow> cs \<noteq> []"
  by auto

lemma remount_call_ok_writable:
  "remount_call_ok p True m c \<Longrightarrow> call_path c = Some p \<and> \<not> is_readonly_remount c"
  by (cases c) (auto simp add: scast_flags hdr_defs)

lemma remount_calls_writable:
  assumes "remount_calls p True cs"
  shows "\<forall>c \<in> set cs. call_path c = Some p \<and> \<not> is_readonly_remount c"
proof (cases cs)
  case Nil
  with assms show ?thesis by simp
next
  case (Cons c cs')
  with assms obtain q r where c: "c = Lstat q r"
    by (cases c) simp_all
  from assms have "list_all (remount_call_ok p True (list_ex is_mount cs')) cs"
    by (simp add: Cons c)
  then show ?thesis
    using remount_call_ok_writable by (auto simp add: list_all_iff)
qed

lemma sysroot_is_configured_ro_trace:
  "\<exists>cfg. trace (snd (sysroot_is_configured_ro K s)) = trace s @ cfg \<and> list_all is_config_call cfg
         \<and> list_all (\<lambda>c. call_path c = None \<or> call_path c = Some config_path) cfg"
  by (auto simp add: sysroot_is_configured_ro_def Let_def called_simps split: option.splits)

lemma config_call_not_Mount: "list_all is_config_call cfg \<Longrightarrow> Mount a b c d \<notin> set cfg"
  by (auto simp add: list_all_iff)

lemma config_call_not_readonly_remount: "is_config_call c \<Longrightarrow> \<not> is_readonly_remount c"
  by (cases c) simp_all

lemma bind_mount_etc_trace:
  "\<exists>r. trace (final (bind_mount_etc K s)) = trace s @ [Mount ''/etc'' ''/etc'' (scast MS_BIND) r]
       \<and> (case r of Some e \<Rightarrow> bind_mount_etc K s = Exit EXIT_FAILURE (final (bind_mount_etc K s))
                   | None \<Rightarrow> bind_mount_etc K s = Return (final (bind_mount_etc K s)))"
  by (simp add: bind_mount_etc_def called_simps split: sum.splits)

lemma var_step:
  "\<exists>cs3. trace (final (then_run (do_remount K ''/var'' True s) (\<lambda>s. Exit EXIT_SUCCESS s)))
            = trace s @ cs3
         \<and> remount_calls ''/var'' True cs3
         \<and> (exit_status (then_run (do_remount K ''/var'' True s) (\<lambda>s. Exit EXIT_SUCCESS s))
               = Some EXIT_SUCCESS
             \<or> exit_status (then_run (do_remount K ''/var'' True s) (\<lambda>s. Exit EXIT_SUCCESS s))
               = Some EXIT_FAILURE)"
proof -
  let ?r = "do_remount K ''/var'' True s"
  have "final (then_run ?r (\<lambda>s. Exit EXIT_SUCCESS s)) = final ?r"
    by (cases ?r) simp_all
  moreover have "exit_status (then_run ?r (\<lambda>s. Exit EXIT_SUCCESS s)) = Some EXIT_SUCCESS
             \<or> exit_status (then_run ?r (\<lambda>s. Exit EXIT_SUCCESS s)) = Some EXIT_FAILURE"
    using do_remount_Exit [of K "''/var''" True s] by (cases ?r) auto
  ultimately show ?thesis
    using do_remount_trace [of K "''/var''" True s] do_remount_calls [of "''/var''" True s K]
    by auto
qed

lemma main_remounts_False:
  "main_remounts K False s =
     then_run (do_remount K ''/sysroot'' True s) (\<lambda>s.
     then_run (do_remount K ''/var'' True s) (\<lambda>s. Exit EXIT_SUCCESS s))"
  by (simp add: main_remounts_def)

lemma main_remounts_calls:
  "\<exists>cs1 cs2 cs3.
     trace (final (main_remounts K ro s)) = trace s @ cs1 @ cs2 @ cs3
     \<and> remount_calls ''/sysroot'' (\<not> ro) cs1
     \<and> (if ro then cs2 = [] \<or> etc_calls cs2 else cs2 = [])
     \<and> (cs3 = [] \<or> remount_calls ''/var'' True cs3)
     \<and> (cs3 \<noteq> [] \<and> ro \<longrightarrow>
          (\<exists>rest. cs2 = Mount ''/etc'' ''/etc'' (scast MS_BIND) None # rest
                 \<and> remount_calls ''/etc'' True rest))
     \<and> (exit_status (main_remounts K ro s) = Some EXIT_SUCCESS \<longrightarrow> cs3 \<noteq> [])
     \<and> (exit_status (main_remounts K ro s) = Some EXIT_SUCCESS
        \<or> exit_status (main_remounts K ro s) = Some EXIT_FAILURE)"
proof -
  let ?r1 = "do_remount K ''/sysroot'' (\<not> ro) s"
  have c1: "remount_calls ''/sysroot'' (\<not> ro) (new_calls s (final ?r1))"
    by (rule do_remount_calls)
  have t1: "trace (final ?r1) = trace s @ new_calls s (final ?r1)"
    by (rule do_remount_trace)
  have ne: "EXIT_FAILURE \<noteq> EXIT_SUCCESS"
    by (simp add: hdr_defs)
  show ?thesis
  proof (cases ?r1)
    case (Exit c s1)
    then have m: "main_remounts K ro s = Exit EXIT_FAILURE s1"
      using do_remount_Exit [OF Exit] by (simp add: main_remounts_def)
    show ?thesis
      using c1 t1 Exit m ne
      by (intro exI [of _ "new_calls s s1"] exI [of _ "[]"]) simp
  next
    case (Return s1)
    note r1 = Return
    from t1 r1 have t1': "trace s1 = trace s @ new_calls s s1" by simp
    from c1 r1 have c1': "remount_calls ''/sysroot'' (\<not> ro) (new_calls s s1)" by simp
    show ?thesis
    proof (cases ro)
      case False
      let ?v = "then_run (do_remount K ''/var'' True s1) (\<lambda>s. Exit EXIT_SUCCESS s)"
      have m: "main_remounts K ro s = ?v"
        using False r1 by (simp add: main_remounts_def)
      obtain cs3 where v: "trace (final ?v) = trace s1 @ cs3" "remount_calls ''/var'' True cs3"
        "exit_status ?v = Some EXIT_SUCCESS \<or> exit_status ?v = Some EXIT_FAILURE"
        using var_step [of K s1] by blast
      have "trace (final (main_remounts K ro s)) = trace s @ new_calls s s1 @ [] @ cs3"
        using t1' v(1) by (simp add: m)
      then show ?thesis
        using c1' v(2,3) False remount_calls_not_Nil [OF v(2)] unfolding m
        by (intro exI [of _ "new_calls s s1"] exI [of _ "[]"] exI [of _ cs3]) simp
    next
      case True
      let ?b = "bind_mount_etc K s1"
      obtain r where b: "trace (final ?b) = trace s1 @ [Mount ''/etc'' ''/etc'' (scast MS_BIND) r]"
        "case r of Some e \<Rightarrow> ?b = Exit EXIT_FAILURE (final ?b) | None \<Rightarrow> ?b = Return (final ?b)"
        using bind_mount_etc_trace [of K s1] by blast
      show ?thesis
      proof (cases r)
        case (Some e)
        with b(2) have be: "?b = Exit EXIT_FAILURE (final ?b)" by simp
        have m: "main_remounts K ro s = Exit EXIT_FAILURE (final ?b)"
          using True r1 by (simp add: main_remounts_def) (subst be, simp)
        have "trace (final (main_remounts K ro s)) =
                trace s @ new_calls s s1 @ [Mount ''/etc'' ''/etc'' (scast MS_BIND) r] @ []"
          using t1' b(1) by (simp add: m)
        then show ?thesis
          using c1' True Some ne unfolding m
          by (intro exI [of _ "new_calls s s1"]
                exI [of _ "[Mount ''/etc'' ''/etc'' (scast MS_BIND) r]"] exI [of _ "[]"]) simp
      next
        case None
        define sb where "sb = final ?b"
        from None b have br: "?b = Return sb" and tb: "trace sb = trace s1 @ [Mount ''/etc'' ''/etc'' (scast MS_BIND) None]"
          by (simp_all add: sb_def)
        let ?r2 = "do_remount K ''/etc'' True sb"
        have c2: "remount_calls ''/etc'' True (new_calls sb (final ?r2))"
          by (rule do_remount_calls)
        have t2: "trace (final ?r2) = trace sb @ new_calls sb (final ?r2)"
          by (rule do_remount_trace)
        let ?cs2 = "Mount ''/etc'' ''/etc'' (scast MS_BIND) None # new_calls sb (final ?r2)"
        have t12: "trace (final ?r2) = trace s1 @ ?cs2"
          using t2 tb by simp
        have e2: "etc_calls ?cs2"
          using c2 by simp
        show ?thesis
        proof (cases ?r2)
          case (Exit c s2)
          then have m: "main_remounts K ro s = Exit EXIT_FAILURE s2"
            using do_remount_Exit [OF Exit] True r1 br by (simp add: main_remounts_def)
          have "trace (final (main_remounts K ro s)) = trace s @ new_calls s s1 @ ?cs2 @ []"
            using t1' t12 Exit by (simp add: m)
          then show ?thesis
            using c1' True e2 ne unfolding m
            by (intro exI [of _ "new_calls s s1"] exI [of _ ?cs2] exI [of _ "[]"]) simp
        next
          case (Return s2)
          let ?v = "then_run (do_remount K ''/var'' True s2) (\<lambda>s. Exit EXIT_SUCCESS s)"
          have m: "main_remounts K ro s = ?v"
            using True r1 br Return by (simp add: main_remounts_def)
          obtain cs3 where v: "trace (final ?v) = trace s2 @ cs3" "remount_calls ''/var'' True cs3"
            "exit_status ?v = Some EXIT_SUCCESS \<or> exit_status ?v = Some EXIT_FAILURE"
            using var_step [of K s2] by blast
          from t12 Return have t12': "trace s2 = trace s1 @ ?cs2" by simp
          have "trace (final ?v) = trace s1 @ (?cs2 @ cs3)"
            using v(1) t12' by simp
          with t1'
          have "trace (final (main_remounts K ro s)) = trace s @ new_calls s s1 @ ?cs2 @ cs3"
            by (simp add: m)
          then show ?thesis
            using c1' True e2 c2 v(2,3) remount_calls_not_Nil [OF v(2)] unfolding m
            by (intro exI [of _ "new_calls s s1"] exI [of _ ?cs2] exI [of _ cs3]) simp
        qed
      qed
    qed
  qed
qed

lemma main_readonly_root_run:
  assumes "root_found_readonly K k"
  shows "main K k =
           Exit EXIT_SUCCESS
             (called (PathIsOnReadonlyFs ''/'' True)
                (privatize_sysroot K (touch_run_ostree K (start k))))"
  using assms by (simp add: main_def root_found_readonly_def Let_def)

lemma main_writable_root_run:
  assumes "\<not> root_found_readonly K k"
  shows "\<exists>s0 r cfg. main K k = main_remounts K False s0
           \<and> trace s0 = [TouchRunOstree,
                          Mount ''none'' ''/sysroot'' (scast (MS_REC OR MS_PRIVATE)) r,
                          PathIsOnReadonlyFs ''/'' False] @ cfg
           \<and> list_all is_config_call cfg
           \<and> list_all (\<lambda>c. call_path c = None \<or> call_path c = Some config_path) cfg"
proof -
  let ?p = "called (PathIsOnReadonlyFs ''/'' False) (privatize_sysroot K (touch_run_ostree K (start k)))"
  obtain r where r: "trace (privatize_sysroot K (touch_run_ostree K (start k))) =
      [TouchRunOstree, Mount ''none'' ''/sysroot'' (scast (MS_REC OR MS_PRIVATE)) r]"
    using privatize_sysroot_trace [of K "touch_run_ostree K (start k)"]
    by (auto simp add: touch_run_ostree_simps start_simps)
  obtain cfg where cfg: "trace (snd (sysroot_is_configured_ro K ?p)) = trace ?p @ cfg"
      "list_all is_config_call cfg"
      "list_all (\<lambda>c. call_path c = None \<or> call_path c = Some config_path) cfg"
    using sysroot_is_configured_ro_trace [of K ?p] by blast
  have f: "fst (sysroot_is_configured_ro K ?p) = False"
    by (simp add: sysroot_is_configured_ro_def Let_def split: option.splits)
  have "main K k = main_remounts K False (snd (sysroot_is_configured_ro K ?p))"
    using assms f by (simp add: main_def root_found_readonly_def Let_def split_beta)
  moreover have "trace (snd (sysroot_is_configured_ro K ?p)) =
      [TouchRunOstree, Mount ''none'' ''/sysroot'' (scast (MS_REC OR MS_PRIVATE)) r,
       PathIsOnReadonlyFs ''/'' False] @ cfg"
    using r cfg(1) by (simp add: called_simps)
  ultimately show ?thesis
    using cfg(2,3) by blast
qed

lemma main_Mount_failed:
  assumes m: "Mount t t fl (Some e) \<in> set (trace (final (main K k)))"
  shows "if e = EINVAL
         then (t = ''/sysroot'' \<longrightarrow> (\<exists>r. Lstat ''/var'' r \<in> set (trace (final (main K k)))))
              \<and> (t = ''/var'' \<longrightarrow> exit_status (main K k) = Some EXIT_SUCCESS)
         else exit_status (main K k) = Some EXIT_FAILURE
              \<and> last (trace (final (main K k))) = Mount t t fl (Some e)
              \<and> last (stderr (final (main K k))) = (''failed to remount(rw) '' @ t, e)"
proof -
  have nr: "\<not> root_found_readonly K k"
  proof
    assume ro: "root_found_readonly K k"
    obtain r where "trace (privatize_sysroot K (touch_run_ostree K (start k))) =
      [TouchRunOstree, Mount ''none'' ''/sysroot'' (scast (MS_REC OR MS_PRIVATE)) r]"
      using privatize_sysroot_trace [of K "touch_run_ostree K (start k)"]
      by (auto simp add: touch_run_ostree_simps start_simps)
    with m show False
      by (auto simp add: main_readonly_root_run [OF ro] called_simps)
  qed
  obtain s0 r cfg where s0: "main K k = main_remounts K False s0"
      "trace s0 = [TouchRunOstree, Mount ''none'' ''/sysroot'' (scast (MS_REC OR MS_PRIVATE)) r,
                   PathIsOnReadonlyFs ''/'' False] @ cfg"
      "list_all is_config_call cfg"
    using main_writable_root_run [OF nr] by blast
  have pre: "Mount t t fl (Some e) \<notin> set (trace s0)"
    using s0(2) config_call_not_Mount [OF s0(3)] by auto
  let ?r1 = "do_remount K ''/sysroot'' True s0"
  show ?thesis
  proof (cases ?r1)
    case (Exit c s1)
    then have main: "main K k = Exit c s1"
      by (simp add: s0(1) main_remounts_False)
    from do_remount_trace [of K "''/sysroot''" True s0] Exit
    have tr: "trace s1 = trace s0 @ new_calls s0 s1" by simp
    with m pre main have "Mount t t fl (Some e) \<in> set (new_calls s0 (final ?r1))"
      using Exit by auto
    from do_remount_Mount_last [OF this] Exit
    have l: "t = ''/sysroot''" "last (trace s1) = Mount t t fl (Some e)" by simp_all
    from do_remount_Exit [OF Exit] l show ?thesis
      by (auto simp add: main rw_or_ro_def)
  next
    case (Return s1)
    let ?r2 = "do_remount K ''/var'' True s1"
    have main: "main K k = then_run ?r2 (\<lambda>s. Exit EXIT_SUCCESS s)"
      by (simp add: s0(1) main_remounts_False Return)
    from do_remount_trace [of K "''/sysroot''" True s0] Return
    have tr1: "trace s1 = trace s0 @ new_calls s0 s1" by simp
    have tr2: "trace (final ?r2) = trace s1 @ new_calls s1 (final ?r2)"
      by (rule do_remount_trace)
    have fin: "trace (final (main K k)) = trace (final ?r2)"
      by (cases ?r2) (simp_all add: main)
    obtain rv where rv: "Lstat ''/var'' rv \<in> set (new_calls s1 (final ?r2))"
      using do_remount_Lstat by blast
    then have var: "\<exists>r. Lstat ''/var'' r \<in> set (trace (final (main K k)))"
      using fin tr2 by auto
    from m pre fin tr1 tr2
    consider (a) "Mount t t fl (Some e) \<in> set (new_calls s0 (final ?r1))"
      | (b) "Mount t t fl (Some e) \<in> set (new_calls s1 (final ?r2))"
      using Return by auto
    then show ?thesis
    proof cases
      case a
      from do_remount_Mount_last [OF a] have t: "t = ''/sysroot''" by simp
      from a do_remount_Return [OF Return] have "e = EINVAL" by (auto simp add: Return)
      with t var show ?thesis by simp
    next
      case b
      from do_remount_Mount_last [OF b]
      have t: "t = ''/var''" "last (trace (final ?r2)) = Mount t t fl (Some e)" by simp_all
      show ?thesis
      proof (cases ?r2)
        case (Exit c s2)
        from do_remount_Exit [OF Exit] t Exit show ?thesis
          by (auto simp add: main rw_or_ro_def)
      next
        case (Return s2)
        from b do_remount_Return [OF Return] Return have "e = EINVAL" by auto
        with t Return show ?thesis by (simp add: main)
      qed
    qed
  qed
qed

subsection \<open>Concrete runs\<close>

text \<open>The run of \<^verbatim>\<open>do_remount ("/var", true)\<close> where \<^verbatim>\<open>/var\<close> is a read-only mount point.\<close>

lemma toy_var_rw_run:
  "do_remount toy_kernel ''/var'' True (start toy_var_ro) =
     Return \<lparr>kern = toy_var_ro\<lparr>t_readonly := []\<rparr>,
             trace = [Lstat ''/var'' (Some 0x41ED), Statvfs ''/var'' (Some 1),
                      Mount ''/var'' ''/var'' 32800 None],
             stdout = ''Remounted rw: /var'' @ newline, stderr = []\<rparr>"
  by (simp add: do_remount_def Let_def called_def scast_flags rw_or_ro_def toy_defs hdr_defs)

text \<open>The same call once more, in the state the first call left.\<close>

lemma toy_var_rw_again_run:
  "do_remount toy_kernel ''/var'' True (final (do_remount toy_kernel ''/var'' True (start toy_var_ro))) =
     Return \<lparr>kern = toy_var_ro\<lparr>t_readonly := []\<rparr>,
             trace = [Lstat ''/var'' (Some 0x41ED), Statvfs ''/var'' (Some 1),
                      Mount ''/var'' ''/var'' 32800 None,
                      Lstat ''/var'' (Some 0x41ED), Statvfs ''/var'' (Some 0)],
             stdout = ''Remounted rw: /var'' @ newline, stderr = []\<rparr>"
  by (simp add: toy_var_rw_run)
     (simp add: do_remount_def Let_def called_def toy_defs hdr_defs)

lemma toy_sysroot_noop_run:
  "do_remount toy_kernel ''/sysroot'' True (start toy_var_ro) =
     Return \<lparr>kern = toy_var_ro,
             trace = [Lstat ''/sysroot'' (Some 0x41ED), Statvfs ''/sysroot'' (Some 0)],
             stdout = [], stderr = []\<rparr>"
  by (simp add: do_remount_def Let_def called_def toy_defs hdr_defs)

lemma toy_var_refused_run:
  "do_remount toy_kernel ''/var'' True (start toy_var_refused) =
     Exit 1 \<lparr>kern = toy_var_refused,
             trace = [Lstat ''/var'' (Some 0x41ED), Statvfs ''/var'' (Some 1),
                      Mount ''/var'' ''/var'' 32800 (Some 1)],
             stdout = [], stderr = [(''failed to remount(rw) /var'', 1)]\<rparr>"
  by (simp add: do_remount_def Let_def called_def scast_flags rw_or_ro_def toy_defs hdr_defs)

lemma toy_sysroot_plain_run:
  "do_remount toy_kernel ''/sysroot'' True (start toy_sysroot_plain) =
     Return \<lparr>kern = toy_sysroot_plain,
             trace = [Lstat ''/sysroot'' (Some 0x41ED), Statvfs ''/sysroot'' (Some 1),
                      Mount ''/sysroot'' ''/sysroot'' 32800 (Some 22)],
             stdout = [], stderr = []\<rparr>"
  by (simp add: do_remount_def Let_def called_def scast_flags toy_defs hdr_defs)

text \<open>The run of \<^verbatim>\<open>sysroot_is_configured_ro\<close> on a file that sets \<^verbatim>\<open>readonly=true\<close>.\<close>

lemma toy_config_true_run:
  "sysroot_is_configured_ro toy_kernel (start (toy_var_ro\<lparr>t_config := Some True\<rparr>)) =
     (False,
      \<lparr>kern = toy_var_ro\<lparr>t_config := Some True\<rparr>,
       trace = [Stat config_path True, KeyFileLoadFromFile config_path True,
                KeyFileGetBoolean ''sysroot'' ''readonly'' True],
       stdout = ignoring_notice @ newline, stderr = []\<rparr>)"
  by (auto simp add: sysroot_is_configured_ro_def Let_def called_def g_key_file_get_boolean_def
                     toy_defs)

text \<open>The remount sequence under a read-only policy and under a writable one.\<close>

lemma toy_readonly_policy_run:
  "main_remounts toy_kernel True (start toy_var_ro) =
     Exit 0 \<lparr>kern = toy_var_ro\<lparr>t_readonly := [''/sysroot''],
                                t_mountpoints := [''/etc'', ''/sysroot'', ''/var'']\<rparr>,
             trace = [Lstat ''/sysroot'' (Some 0x41ED), Statvfs ''/sysroot'' (Some 0),
                      Mount ''/sysroot'' ''/sysroot'' 32801 None,
                      Mount ''/etc'' ''/etc'' 4096 None,
                      Lstat ''/etc'' (Some 0x41ED), Statvfs ''/etc'' (Some 0),
                      Lstat ''/var'' (Some 0x41ED), Statvfs ''/var'' (Some 1),
                      Mount ''/var'' ''/var'' 32800 None],
             stdout = ''Remounted ro: /sysroot'' @ newline @ ''Remounted rw: /var'' @ newline,
             stderr = []\<rparr>"
  by (simp add: main_remounts_def bind_mount_etc_def do_remount_def Let_def
        called_def scast_flags rw_or_ro_def toy_defs hdr_defs)

lemma toy_writable_policy_run:
  "main_remounts toy_kernel False (start toy_var_ro) =
     Exit 0 \<lparr>kern = toy_var_ro\<lparr>t_readonly := []\<rparr>,
             trace = [Lstat ''/sysroot'' (Some 0x41ED), Statvfs ''/sysroot'' (Some 0),
                      Lstat ''/var'' (Some 0x41ED), Statvfs ''/var'' (Some 1),
                      Mount ''/var'' ''/var'' 32800 None],
             stdout = ''Remounted rw: /var'' @ newline,
             stderr = []\<rparr>"
  by (simp add: main_remounts_def do_remount_def Let_def
        called_def scast_flags rw_or_ro_def toy_defs hdr_defs)

text \<open>
  Two calls in succession on a system whose \<^verbatim>\<open>mount\<close> succeeds without effect.
\<close>

lemma sticky_var_rw_run:
  "do_remount sticky_kernel ''/var'' True (start toy_var_ro) =
     Return \<lparr>kern = toy_var_ro,
             trace = [Lstat ''/var'' (Some 0x41ED), Statvfs ''/var'' (Some 1),
                      Mount ''/var'' ''/var'' 32800 None],
             stdout = ''Remounted rw: /var'' @ newline, stderr = []\<rparr>"
  by (simp add: do_remount_def Let_def called_def scast_flags rw_or_ro_def sticky_kernel_def
        toy_defs hdr_defs)

lemma sticky_var_rw_again_run:
  "do_remount sticky_kernel ''/var'' True
     (final (do_remount sticky_kernel ''/var'' True (start toy_var_ro))) =
     Return \<lparr>kern = toy_var_ro,
             trace = [Lstat ''/var'' (Some 0x41ED), Statvfs ''/var'' (Some 1),
                      Mount ''/var'' ''/var'' 32800 None,
                      Lstat ''/var'' (Some 0x41ED), Statvfs ''/var'' (Some 1),
                      Mount ''/var'' ''/var'' 32800 None],
             stdout = ''Remounted rw: /var'' @ newline @ ''Remounted rw: /var'' @ newline,
             stderr = []\<rparr>"
  by (simp add: sticky_var_rw_run)
     (simp add: do_remount_def Let_def called_def scast_flags rw_or_ro_def sticky_kernel_def
        toy_defs hdr_defs)

text \<open>Whole runs of \<^verbatim>\<open>main\<close>.\<close>

lemma toy_root_ro_found: "root_found_readonly toy_kernel (toy_var_ro\<lparr>t_readonly := [''/'', ''/var'']\<rparr>)"
  by (simp add: root_found_readonly_def touch_run_ostree_def privatize_sysroot_def called_def
        private_flags toy_defs)

lemma toy_var_refused_main:
  "main toy_kernel toy_var_refused =
     Exit 1 \<lparr>kern = toy_var_refused,
             trace = [TouchRunOstree, Mount ''none'' ''/sysroot'' 278528 None,
                      PathIsOnReadonlyFs ''/'' False, Stat config_path False,
                      Lstat ''/sysroot'' (Some 0x41ED), Statvfs ''/sysroot'' (Some 0),
                      Lstat ''/var'' (Some 0x41ED), Statvfs ''/var'' (Some 1),
                      Mount ''/var'' ''/var'' 32800 (Some 1)],
             stdout = [], stderr = [(''failed to remount(rw) /var'', 1)]\<rparr>"
  by (simp add: main_def main_remounts_def sysroot_is_configured_ro_def do_remount_def Let_def
        touch_run_ostree_def privatize_sysroot_def called_def private_flags scast_flags
        rw_or_ro_def toy_defs hdr_defs)

lemma toy_sysroot_plain_main:
  "main toy_kernel toy_sysroot_plain =
     Exit 0 \<lparr>kern = toy_sysroot_plain,
             trace = [TouchRunOstree, Mount ''none'' ''/sysroot'' 278528 None,
                      PathIsOnReadonlyFs ''/'' False, Stat config_path False,
                      Lstat ''/sysroot'' (Some 0x41ED), Statvfs ''/sysroot'' (Some 1),
                      Mount ''/sysroot'' ''/sysroot'' 32800 (Some 22),
                      Lstat ''/var'' (Some 0x41ED), Statvfs ''/var'' (Some 0)],
             stdout = [], stderr = []\<rparr>"
  by (simp add: main_def main_remounts_def sysroot_is_configured_ro_def do_remount_def Let_def
        touch_run_ostree_def privatize_sysroot_def called_def private_flags scast_flags
        rw_or_ro_def toy_defs hdr_defs)

lemma toy_var_plain_main:
  "main toy_kernel (toy_var_ro\<lparr>t_mountpoints := []\<rparr>) =
     Exit 0 \<lparr>kern = toy_var_ro\<lparr>t_mountpoints := []\<rparr>,
             trace = [TouchRunOstree, Mount ''none'' ''/sysroot'' 278528 None,
                      PathIsOnReadonlyFs ''/'' False, Stat config_path False,
                      Lstat ''/sysroot'' (Some 0x41ED), Statvfs ''/sysroot'' (Some 0),
                      Lstat ''/var'' (Some 0x41ED), Statvfs ''/var'' (Some 1),
                      Mount ''/var'' ''/var'' 32800 (Some 22)],
             stdout = [], stderr = []\<rparr>"
  by (simp add: main_def main_remounts_def sysroot_is_configured_ro_def do_remount_def Let_def
        touch_run_ostree_def privatize_sysroot_def called_def private_flags scast_flags
        rw_or_ro_def toy_defs hdr_defs)

lemma toy_config_true_main:
  "main toy_kernel (toy_var_ro\<lparr>t_config := Some True\<rparr>) =
     Exit 0 \<lparr>kern = toy_var_ro\<lparr>t_readonly := [], t_config := Some True\<rparr>,
             trace = [TouchRunOstree, Mount ''none'' ''/sysroot'' 278528 None,
                      PathIsOnReadonlyFs ''/'' False, Stat config_path True,
                      KeyFileLoadFromFile config_path True,
                      KeyFileGetBoolean ''sysroot'' ''readonly'' True,
                      Lstat ''/sysroot'' (Some 0x41ED), Statvfs ''/sysroot'' (Some 0),
                      Lstat ''/var'' (Some 0x41ED), Statvfs ''/var'' (Some 1),
                      Mount ''/var'' ''/var'' 32800 None],
             stdout = ignoring_notice @ newline @ ''Remounted rw: /var'' @ newline,
             stderr = []\<rparr>"
  by (simp add: main_def main_remounts_def sysroot_is_configured_ro_def do_remount_def Let_def
        touch_run_ostree_def privatize_sysroot_def called_def private_flags scast_flags
        g_key_file_get_boolean_def rw_or_ro_def toy_defs hdr_defs)

subsection \<open>The configured policy\<close>

text \<open>
  C1. \<^verbatim>\<open>sysroot_is_configured_ro\<close> returns false whatever the system answers about the
  configuration file, and it leaves the system state alone. When \<^verbatim>\<open>stat\<close> fails (no
  file) it returns false after that call; when the file does not load it returns false
  after the two calls; when the file loads and \<^verbatim>\<open>readonly\<close> in group \<^verbatim>\<open>sysroot\<close> is true
  it returns false and has written the notice, one line, to standard output. Standard
  output changes in no other case.
\<close>

theorem sysroot_is_configured_ro_false:
  "fst (sysroot_is_configured_ro K s) = False
   \<and> kern (snd (sysroot_is_configured_ro K s)) = kern s
   \<and> (\<not> k_stat K (kern s) config_path \<longrightarrow>
        sysroot_is_configured_ro K s = (False, called (Stat config_path False) s))
   \<and> (k_stat K (kern s) config_path \<and> k_key_file_load_from_file K (kern s) config_path = None \<longrightarrow>
        sysroot_is_configured_ro K s =
          (False, called (KeyFileLoadFromFile config_path False) (called (Stat config_path True) s)))
   \<and> (k_stat K (kern s) config_path
        \<and> k_key_file_load_from_file K (kern s) config_path = Some keyfile
        \<and> g_key_file_get_boolean keyfile ''sysroot'' ''readonly'' \<longrightarrow>
        stdout (snd (sysroot_is_configured_ro K s)) = stdout s @ ignoring_notice @ newline)
   \<and> (stdout (snd (sysroot_is_configured_ro K s)) \<noteq> stdout s \<longrightarrow>
        KeyFileGetBoolean ''sysroot'' ''readonly'' True
          \<in> set (new_calls s (snd (sysroot_is_configured_ro K s))))"
  by (auto simp add: sysroot_is_configured_ro_def Let_def called_simps new_calls_def
           split: option.splits)

theorem sysroot_is_configured_ro_false_witness:
  "\<not> k_stat toy_kernel (kern (start toy_var_ro)) config_path
   \<and> sysroot_is_configured_ro toy_kernel (start toy_var_ro)
       = (False, called (Stat config_path False) (start toy_var_ro))
   \<and> k_stat (toy_kernel\<lparr>k_key_file_load_from_file := \<lambda>k p. None\<rparr>)
        (kern (start (toy_var_ro\<lparr>t_config := Some True\<rparr>))) config_path
   \<and> k_key_file_load_from_file (toy_kernel\<lparr>k_key_file_load_from_file := \<lambda>k p. None\<rparr>)
        (kern (start (toy_var_ro\<lparr>t_config := Some True\<rparr>))) config_path = None
   \<and> sysroot_is_configured_ro (toy_kernel\<lparr>k_key_file_load_from_file := \<lambda>k p. None\<rparr>)
        (start (toy_var_ro\<lparr>t_config := Some True\<rparr>))
       = (False, called (KeyFileLoadFromFile config_path False)
                   (called (Stat config_path True) (start (toy_var_ro\<lparr>t_config := Some True\<rparr>))))
   \<and> k_stat toy_kernel (kern (start (toy_var_ro\<lparr>t_config := Some True\<rparr>))) config_path
   \<and> k_key_file_load_from_file toy_kernel (kern (start (toy_var_ro\<lparr>t_config := Some True\<rparr>))) config_path
       = Some (\<lambda>g key. g = ''sysroot'' \<and> key = ''readonly'' \<and> True)
   \<and> g_key_file_get_boolean (\<lambda>g key. g = ''sysroot'' \<and> key = ''readonly'' \<and> True) ''sysroot'' ''readonly''
   \<and> fst (sysroot_is_configured_ro toy_kernel (start (toy_var_ro\<lparr>t_config := Some True\<rparr>))) = False
   \<and> stdout (snd (sysroot_is_configured_ro toy_kernel (start (toy_var_ro\<lparr>t_config := Some True\<rparr>))))
       = stdout (start (toy_var_ro\<lparr>t_config := Some True\<rparr>)) @ ignoring_notice @ newline
   \<and> stdout (snd (sysroot_is_configured_ro toy_kernel (start (toy_var_ro\<lparr>t_config := Some True\<rparr>))))
       \<noteq> stdout (start (toy_var_ro\<lparr>t_config := Some True\<rparr>))
   \<and> KeyFileGetBoolean ''sysroot'' ''readonly'' True
       \<in> set (new_calls (start (toy_var_ro\<lparr>t_config := Some True\<rparr>))
                (snd (sysroot_is_configured_ro toy_kernel (start (toy_var_ro\<lparr>t_config := Some True\<rparr>)))))"
proof -
  let ?s = "start (toy_var_ro\<lparr>t_config := Some True\<rparr>)"
  let ?kf = "\<lambda>g key. g = ''sysroot'' \<and> key = ''readonly'' \<and> True"
  let ?K = "toy_kernel\<lparr>k_key_file_load_from_file := \<lambda>k p. None\<rparr>"
  have a1: "\<not> k_stat toy_kernel (kern (start toy_var_ro)) config_path"
    by (simp add: toy_defs)
  have b1: "k_stat ?K (kern ?s) config_path"
    by (simp add: toy_defs)
  have b2: "k_key_file_load_from_file ?K (kern ?s) config_path = None"
    by simp
  have h1: "k_stat toy_kernel (kern ?s) config_path"
    by (simp add: toy_defs)
  have h2: "k_key_file_load_from_file toy_kernel (kern ?s) config_path = Some ?kf"
    by (simp add: toy_defs)
  have h3: "g_key_file_get_boolean ?kf ''sysroot'' ''readonly''"
    by (simp add: g_key_file_get_boolean_def)
  have h4: "stdout (snd (sysroot_is_configured_ro toy_kernel ?s)) \<noteq> stdout ?s"
    by (simp add: toy_config_true_run start_simps newline_def)
  from sysroot_is_configured_ro_false [of toy_kernel "start toy_var_ro"]
       sysroot_is_configured_ro_false [of ?K ?s]
       sysroot_is_configured_ro_false [of toy_kernel ?s ?kf] a1 b1 b2 h1 h2 h3 h4
  show ?thesis by blast
qed

subsection \<open>The status line\<close>

text \<open>
  C2, as the spec states it, has the path before the mode. The program prints the mode
  first: remounting the read-only mount point \<^verbatim>\<open>/var\<close> writable prints
  \<^verbatim>\<open>Remounted rw: /var\<close>, which is not the spec's line \<^verbatim>\<open>Remounted /var: rw\<close>.
\<close>

theorem do_remount_output_counterexample:
  "list_ex is_applied_remount
     (new_calls (start toy_var_ro) (final (do_remount toy_kernel ''/var'' True (start toy_var_ro))))
   \<and> stdout (final (do_remount toy_kernel ''/var'' True (start toy_var_ro))) = ''Remounted rw: /var'' @ newline
   \<and> stdout (final (do_remount toy_kernel ''/var'' True (start toy_var_ro)))
       \<noteq> stdout (start toy_var_ro) @ spec_remounted_line ''/var'' True"
  by (simp add: toy_var_rw_run new_calls_def start_simps hdr_defs spec_remounted_line_def rw_or_ro_def)

text \<open>
  C2, amended. A call of \<^verbatim>\<open>do_remount\<close> applies at most one remount. If it applies one,
  it appends to standard output exactly the text \<^verbatim>\<open>Remounted <rw|ro>: <path>\<close> and a
  newline, the mode first and then the path; otherwise it writes nothing to standard
  output. For a path without a newline character (as the three targets of \<^verbatim>\<open>main\<close>
  are) that text is exactly one line.
\<close>

theorem do_remount_output:
  "stdout (final (do_remount K target writable s)) =
     stdout s @
     (if list_ex is_applied_remount (new_calls s (final (do_remount K target writable s)))
      then ''Remounted '' @ rw_or_ro writable @ '': '' @ target @ newline else [])
   \<and> length (filter is_applied_remount (new_calls s (final (do_remount K target writable s)))) \<le> 1
   \<and> (CHR 0x0A \<notin> set target \<longrightarrow>
        count_list (''Remounted '' @ rw_or_ro writable @ '': '' @ target @ newline) (CHR 0x0A) = 1)"
proof (intro conjI impI)
  show "stdout (final (do_remount K target writable s)) =
     stdout s @
     (if list_ex is_applied_remount (new_calls s (final (do_remount K target writable s)))
      then ''Remounted '' @ rw_or_ro writable @ '': '' @ target @ newline else [])"
    by (simp add: do_remount_def Let_def called_simps new_calls_def scast_flags hdr_defs
             split: option.splits sum.splits)
  show "length (filter is_applied_remount (new_calls s (final (do_remount K target writable s)))) \<le> 1"
    by (simp add: do_remount_def Let_def called_simps new_calls_def split: option.splits sum.splits)
  assume "CHR 0x0A \<notin> set target"
  then have "count_list target (CHR 0x0A) = 0"
    by (simp add: count_list_0_iff)
  then show "count_list (''Remounted '' @ rw_or_ro writable @ '': '' @ target @ newline) (CHR 0x0A) = 1"
    by (simp add: rw_or_ro_def newline_def)
qed

theorem do_remount_output_witness:
  "CHR 0x0A \<notin> set ''/var''
   \<and> stdout (final (do_remount toy_kernel ''/var'' True (start toy_var_ro))) = ''Remounted rw: /var'' @ newline
   \<and> length (filter is_applied_remount
        (new_calls (start toy_var_ro) (final (do_remount toy_kernel ''/var'' True (start toy_var_ro))))) = 1
   \<and> count_list (''Remounted rw: /var'' @ newline) (CHR 0x0A) = 1
   \<and> \<not> list_ex is_applied_remount
        (new_calls (start toy_var_ro) (final (do_remount toy_kernel ''/sysroot'' True (start toy_var_ro))))
   \<and> stdout (final (do_remount toy_kernel ''/sysroot'' True (start toy_var_ro))) = []"
proof -
  have h: "CHR 0x0A \<notin> set ''/var''" by simp
  have a: "list_ex is_applied_remount
        (new_calls (start toy_var_ro) (final (do_remount toy_kernel ''/var'' True (start toy_var_ro))))"
    by (simp add: toy_var_rw_run new_calls_def start_simps hdr_defs)
  have b: "length (filter is_applied_remount
        (new_calls (start toy_var_ro) (final (do_remount toy_kernel ''/var'' True (start toy_var_ro))))) = 1"
    by (simp add: toy_var_rw_run new_calls_def start_simps hdr_defs)
  have c: "\<not> list_ex is_applied_remount
        (new_calls (start toy_var_ro) (final (do_remount toy_kernel ''/sysroot'' True (start toy_var_ro))))"
    by (simp add: toy_sysroot_noop_run new_calls_def start_simps)
  from do_remount_output [of toy_kernel "''/var''" True "start toy_var_ro"]
       do_remount_output [of toy_kernel "''/sysroot''" True "start toy_var_ro"] h a b c
  show ?thesis by (simp add: rw_or_ro_def start_simps)
qed

subsection \<open>A read-only root\<close>

text \<open>
  C3. If the probe on line 119 finds the root file system read-only, \<^verbatim>\<open>main\<close> exits
  with status \<^verbatim>\<open>EXIT_SUCCESS\<close>, which is 0. The calls of the whole run are the marker,
  the \<^verbatim>\<open>mount\<close> call that makes \<^verbatim>\<open>/sysroot\<close> private (its flags are
  \<^verbatim>\<open>MS_REC | MS_PRIVATE\<close>, not a remount) and the probe: no remount is issued for any
  target, no call at all concerns \<^verbatim>\<open>/etc\<close> or \<^verbatim>\<open>/var\<close>, and nothing is written to
  standard output.
\<close>

theorem main_readonly_root_exits:
  assumes "root_found_readonly K k"
  shows "exit_status (main K k) = Some EXIT_SUCCESS \<and> EXIT_SUCCESS = 0
         \<and> (\<exists>r. trace (final (main K k)) =
                  [TouchRunOstree,
                   Mount ''none'' ''/sysroot'' (scast (MS_REC OR MS_PRIVATE)) r,
                   PathIsOnReadonlyFs ''/'' True])
         \<and> \<not> list_ex is_remount (trace (final (main K k)))
         \<and> \<not> list_ex (\<lambda>c. call_path c = Some ''/etc'' \<or> call_path c = Some ''/var'')
                (trace (final (main K k)))
         \<and> stdout (final (main K k)) = []"
proof -
  obtain r where r: "trace (privatize_sysroot K (touch_run_ostree K (start k))) =
      [TouchRunOstree, Mount ''none'' ''/sysroot'' (scast (MS_REC OR MS_PRIVATE)) r]"
    using privatize_sysroot_trace [of K "touch_run_ostree K (start k)"]
    by (auto simp add: touch_run_ostree_simps start_simps)
  show ?thesis
    using r
    by (simp add: main_readonly_root_run [OF assms] called_simps privatize_sysroot_stdout
          touch_run_ostree_simps start_simps private_flags hdr_defs)
qed

theorem main_readonly_root_exits_witness:
  "root_found_readonly toy_kernel (toy_var_ro\<lparr>t_readonly := [''/'', ''/var'']\<rparr>)
   \<and> exit_status (main toy_kernel (toy_var_ro\<lparr>t_readonly := [''/'', ''/var'']\<rparr>)) = Some 0
   \<and> \<not> list_ex is_remount (trace (final (main toy_kernel (toy_var_ro\<lparr>t_readonly := [''/'', ''/var'']\<rparr>))))
   \<and> stdout (final (main toy_kernel (toy_var_ro\<lparr>t_readonly := [''/'', ''/var'']\<rparr>))) = []"
  using toy_root_ro_found main_readonly_root_exits [OF toy_root_ro_found]
  by (simp add: EXIT_SUCCESS_def)

subsection \<open>A failing remount\<close>

text \<open>
  C4. In \<^verbatim>\<open>do_remount\<close>: if the \<^verbatim>\<open>mount\<close> call fails with \<^verbatim>\<open>EINVAL\<close>, the function
  returns to its caller with system state, standard output and standard error unchanged;
  if it fails with any other error, the process exits at once (the failed call is the
  last call made) with status \<^verbatim>\<open>EXIT_FAILURE\<close>, which is not 0, after writing to
  standard error a message that contains the requested mode and the target path,
  \<^verbatim>\<open>failed to remount(<rw|ro>) <path>\<close>, followed by the text of the error.
  In a run of \<^verbatim>\<open>main\<close>: after a remount of \<^verbatim>\<open>/sysroot\<close> that failed with \<^verbatim>\<open>EINVAL\<close>
  the run goes on to \<^verbatim>\<open>/var\<close>; a remount of \<^verbatim>\<open>/var\<close> that failed with \<^verbatim>\<open>EINVAL\<close>
  is followed by the exit with \<^verbatim>\<open>EXIT_SUCCESS\<close>; a remount that failed with another
  error is the last call of the run, which exits with \<^verbatim>\<open>EXIT_FAILURE\<close> and has that
  message as its last message on standard error.
\<close>

theorem remount_failure:
  "(Mount src tgt fl (Some errno) \<in> set (new_calls s (final (do_remount K target writable s))) \<longrightarrow>
      (if errno = EINVAL
       then \<exists>s'. do_remount K target writable s = Return s'
                \<and> kern s' = kern s \<and> stdout s' = stdout s \<and> stderr s' = stderr s
       else \<exists>s'. do_remount K target writable s = Exit EXIT_FAILURE s' \<and> EXIT_FAILURE \<noteq> 0
                \<and> stderr s' = stderr s @
                     [(''failed to remount('' @ rw_or_ro writable @ '') '' @ target, errno)]
                \<and> last (trace s') = Mount src tgt fl (Some errno)
                \<and> kern s' = kern s \<and> stdout s' = stdout s))
   \<and> (Mount t t fl' (Some e) \<in> set (trace (final (main K k))) \<longrightarrow>
      (if e = EINVAL
       then (t = ''/sysroot'' \<longrightarrow> (\<exists>r. Lstat ''/var'' r \<in> set (trace (final (main K k)))))
            \<and> (t = ''/var'' \<longrightarrow> exit_status (main K k) = Some EXIT_SUCCESS)
       else exit_status (main K k) = Some EXIT_FAILURE
            \<and> last (trace (final (main K k))) = Mount t t fl' (Some e)
            \<and> last (stderr (final (main K k))) = (''failed to remount(rw) '' @ t, e)))"
proof (intro conjI impI)
  assume "Mount src tgt fl (Some errno) \<in> set (new_calls s (final (do_remount K target writable s)))"
  then show "if errno = EINVAL
       then \<exists>s'. do_remount K target writable s = Return s'
                \<and> kern s' = kern s \<and> stdout s' = stdout s \<and> stderr s' = stderr s
       else \<exists>s'. do_remount K target writable s = Exit EXIT_FAILURE s' \<and> EXIT_FAILURE \<noteq> 0
                \<and> stderr s' = stderr s @
                     [(''failed to remount('' @ rw_or_ro writable @ '') '' @ target, errno)]
                \<and> last (trace s') = Mount src tgt fl (Some errno)
                \<and> kern s' = kern s \<and> stdout s' = stdout s"
    by (auto simp add: do_remount_def Let_def called_simps new_calls_def EXIT_FAILURE_def
           split: option.splits sum.splits if_splits)
next
  assume "Mount t t fl' (Some e) \<in> set (trace (final (main K k)))"
  then show "if e = EINVAL
       then (t = ''/sysroot'' \<longrightarrow> (\<exists>r. Lstat ''/var'' r \<in> set (trace (final (main K k)))))
            \<and> (t = ''/var'' \<longrightarrow> exit_status (main K k) = Some EXIT_SUCCESS)
       else exit_status (main K k) = Some EXIT_FAILURE
            \<and> last (trace (final (main K k))) = Mount t t fl' (Some e)
            \<and> last (stderr (final (main K k))) = (''failed to remount(rw) '' @ t, e)"
    by (rule main_Mount_failed)
qed

theorem remount_failure_witness:
  "Mount ''/var'' ''/var'' 32800 (Some 1)
     \<in> set (new_calls (start toy_var_refused)
          (final (do_remount toy_kernel ''/var'' True (start toy_var_refused))))
   \<and> (1 :: int) \<noteq> EINVAL
   \<and> exit_status (do_remount toy_kernel ''/var'' True (start toy_var_refused)) = Some EXIT_FAILURE
   \<and> Mount ''/sysroot'' ''/sysroot'' 32800 (Some EINVAL)
       \<in> set (new_calls (start toy_sysroot_plain)
            (final (do_remount toy_kernel ''/sysroot'' True (start toy_sysroot_plain))))
   \<and> exit_status (do_remount toy_kernel ''/sysroot'' True (start toy_sysroot_plain)) = None
   \<and> Mount ''/sysroot'' ''/sysroot'' 32800 (Some EINVAL)
       \<in> set (trace (final (main toy_kernel toy_sysroot_plain)))
   \<and> list_ex (\<lambda>c. c = Lstat ''/var'' (Some 0x41ED)) (trace (final (main toy_kernel toy_sysroot_plain)))
   \<and> Mount ''/var'' ''/var'' 32800 (Some EINVAL)
       \<in> set (trace (final (main toy_kernel (toy_var_ro\<lparr>t_mountpoints := []\<rparr>))))
   \<and> exit_status (main toy_kernel (toy_var_ro\<lparr>t_mountpoints := []\<rparr>)) = Some EXIT_SUCCESS
   \<and> Mount ''/var'' ''/var'' 32800 (Some 1) \<in> set (trace (final (main toy_kernel toy_var_refused)))
   \<and> exit_status (main toy_kernel toy_var_refused) = Some EXIT_FAILURE
   \<and> last (stderr (final (main toy_kernel toy_var_refused))) = (''failed to remount(rw) /var'', 1)"
proof -
  let ?vp = "toy_var_ro\<lparr>t_mountpoints := []\<rparr>"
  have h1: "Mount ''/var'' ''/var'' 32800 (Some 1)
     \<in> set (new_calls (start toy_var_refused)
          (final (do_remount toy_kernel ''/var'' True (start toy_var_refused))))"
    by (simp add: toy_var_refused_run new_calls_def start_simps)
  have h2: "(1 :: int) \<noteq> EINVAL"
    by (simp add: EINVAL_def)
  have h3: "Mount ''/sysroot'' ''/sysroot'' 32800 (Some EINVAL)
       \<in> set (trace (final (main toy_kernel toy_sysroot_plain)))"
    by (simp add: toy_sysroot_plain_main EINVAL_def)
  have h4: "list_ex (\<lambda>c. c = Lstat ''/var'' (Some 0x41ED)) (trace (final (main toy_kernel toy_sysroot_plain)))"
    by (simp add: toy_sysroot_plain_main)
  have h5: "Mount ''/var'' ''/var'' 32800 (Some 1) \<in> set (trace (final (main toy_kernel toy_var_refused)))"
    by (simp add: toy_var_refused_main)
  have h6: "Mount ''/sysroot'' ''/sysroot'' 32800 (Some EINVAL)
       \<in> set (new_calls (start toy_sysroot_plain)
            (final (do_remount toy_kernel ''/sysroot'' True (start toy_sysroot_plain))))"
    by (simp add: toy_sysroot_plain_run new_calls_def start_simps EINVAL_def)
  have h7: "Mount ''/var'' ''/var'' 32800 (Some EINVAL) \<in> set (trace (final (main toy_kernel ?vp)))"
    by (simp add: toy_var_plain_main EINVAL_def)
  from remount_failure [where src = "''/var''" and tgt = "''/var''" and fl = 32800 and errno = 1
                          and s = "start toy_var_refused" and K = toy_kernel
                          and target = "''/var''" and writable = True
                          and t = "''/var''" and fl' = 32800 and e = 1 and k = toy_var_refused]
       h1 h2 h5
  have a: "exit_status (do_remount toy_kernel ''/var'' True (start toy_var_refused)) = Some EXIT_FAILURE
        \<and> exit_status (main toy_kernel toy_var_refused) = Some EXIT_FAILURE
        \<and> last (stderr (final (main toy_kernel toy_var_refused))) = (''failed to remount(rw) /var'', 1)"
    by auto
  from remount_failure [where src = "''/sysroot''" and tgt = "''/sysroot''" and fl = 32800
                          and errno = EINVAL and s = "start toy_sysroot_plain" and K = toy_kernel
                          and target = "''/sysroot''" and writable = True
                          and t = "''/var''" and fl' = 32800 and e = EINVAL and k = ?vp]
       h6 h7
  have b: "exit_status (do_remount toy_kernel ''/sysroot'' True (start toy_sysroot_plain)) = None
        \<and> exit_status (main toy_kernel ?vp) = Some EXIT_SUCCESS"
    by auto
  from a b h1 h2 h3 h4 h5 h6 h7 show ?thesis by simp
qed

subsection \<open>Symbolic links\<close>

text \<open>
  C5. If \<^verbatim>\<open>lstat\<close> reports the target as a symbolic link, \<^verbatim>\<open>do_remount\<close> returns to
  its caller having made that one \<^verbatim>\<open>lstat\<close> call and nothing else: no \<^verbatim>\<open>mount\<close> call is
  issued and the system state, standard output and standard error are as before. This
  holds for both values of \<^verbatim>\<open>writable\<close>.
\<close>

theorem do_remount_symlink:
  assumes "k_lstat K (kern s) target = Some st_mode" and "S_ISLNK st_mode"
  shows "do_remount K target writable s = Return (called (Lstat target (Some st_mode)) s)
         \<and> new_calls s (final (do_remount K target writable s)) = [Lstat target (Some st_mode)]
         \<and> \<not> list_ex is_mount (new_calls s (final (do_remount K target writable s)))"
  using assms by (simp add: do_remount_def new_calls_def trace_called)

theorem do_remount_symlink_witness:
  "k_lstat toy_kernel (kern (start (toy_var_ro\<lparr>t_symlinks := [''/var'']\<rparr>))) ''/var'' = Some 0xA1FF
   \<and> S_ISLNK 0xA1FF
   \<and> do_remount toy_kernel ''/var'' True (start (toy_var_ro\<lparr>t_symlinks := [''/var'']\<rparr>))
       = Return (called (Lstat ''/var'' (Some 0xA1FF)) (start (toy_var_ro\<lparr>t_symlinks := [''/var'']\<rparr>)))
   \<and> do_remount toy_kernel ''/var'' False (start (toy_var_ro\<lparr>t_symlinks := [''/var'']\<rparr>))
       = Return (called (Lstat ''/var'' (Some 0xA1FF)) (start (toy_var_ro\<lparr>t_symlinks := [''/var'']\<rparr>)))"
proof -
  let ?s = "start (toy_var_ro\<lparr>t_symlinks := [''/var'']\<rparr>)"
  have h1: "k_lstat toy_kernel (kern ?s) ''/var'' = Some 0xA1FF"
    by (simp add: toy_defs)
  have h2: "S_ISLNK 0xA1FF"
    by (simp add: hdr_defs)
  show ?thesis
    using h1 h2 do_remount_symlink [OF h1 h2, of True] do_remount_symlink [OF h1 h2, of False]
    by simp
qed

subsection \<open>Idempotence\<close>

text \<open>
  C6, as the spec states it, has the second of two calls in succession always a no-op.
  The program keeps no record of what it has done: each call decides from what
  \<^verbatim>\<open>statvfs\<close> reports. On a system whose \<^verbatim>\<open>mount\<close> succeeds without changing what
  \<^verbatim>\<open>statvfs\<close> reports, both calls of \<^verbatim>\<open>do_remount ("/var", true)\<close> return and both
  apply a remount: two applied remounts in the two calls.
\<close>

theorem do_remount_twice_counterexample:
  "exit_status (do_remount sticky_kernel ''/var'' True (start toy_var_ro)) = None
   \<and> list_ex is_applied_remount
        (new_calls (start toy_var_ro)
           (final (do_remount sticky_kernel ''/var'' True (start toy_var_ro))))
   \<and> exit_status (do_remount sticky_kernel ''/var'' True
        (final (do_remount sticky_kernel ''/var'' True (start toy_var_ro)))) = None
   \<and> list_ex is_applied_remount
        (new_calls (final (do_remount sticky_kernel ''/var'' True (start toy_var_ro)))
           (final (do_remount sticky_kernel ''/var'' True
              (final (do_remount sticky_kernel ''/var'' True (start toy_var_ro))))))
   \<and> length (filter is_applied_remount
        (trace (final (do_remount sticky_kernel ''/var'' True
              (final (do_remount sticky_kernel ''/var'' True (start toy_var_ro))))))) = 2"
  by (simp add: sticky_var_rw_again_run)
     (simp add: sticky_var_rw_run new_calls_def start_simps hdr_defs)

text \<open>
  C6, amended. First: when \<^verbatim>\<open>statvfs\<close> reports a writability equal to the requested
  one, \<^verbatim>\<open>do_remount\<close> returns without any \<^verbatim>\<open>mount\<close> call and without changing the
  system state or the output. Second: let a first call return in state \<open>sa\<close>, and
  suppose that every \<^verbatim>\<open>mount\<close> call it made with success took effect: \<^verbatim>\<open>statvfs\<close> on
  the target of that call now reports read-only exactly when the flags that were passed
  to \<^verbatim>\<open>mount\<close> contained \<^verbatim>\<open>MS_RDONLY\<close>. Then a second call with the same target and the
  same \<^verbatim>\<open>writable\<close> returns, applies no remount and changes neither the system state
  nor the output; and if the first call applied a remount, the second issues no
  \<^verbatim>\<open>mount\<close> call at all. So on such a system a remount is applied at most once. The
  condition speaks of the flags passed, not of \<^verbatim>\<open>writable\<close>: the conclusion rests on the
  flags being composed as lines 67-69 compose them.
\<close>

theorem do_remount_idempotent:
  "(Statvfs target (Some f_flag) \<in> set (new_calls s (final (do_remount K target writable s)))
      \<and> writable = (f_flag AND ST_RDONLY = 0) \<longrightarrow>
      (\<exists>s'. do_remount K target writable s = Return s'
            \<and> \<not> list_ex is_mount (new_calls s s')
            \<and> kern s' = kern s \<and> stdout s' = stdout s \<and> stderr s' = stderr s))
   \<and> (do_remount K target writable s = Return sa
      \<and> (\<forall>src tgt fl. Mount src tgt fl None \<in> set (new_calls s sa) \<longrightarrow>
           (\<forall>f. k_statvfs K (kern sa) tgt = Some f \<longrightarrow>
                (f AND ST_RDONLY \<noteq> 0) = (fl AND scast MS_RDONLY \<noteq> 0))) \<longrightarrow>
      (\<exists>sb. do_remount K target writable sa = Return sb
            \<and> kern sb = kern sa \<and> stdout sb = stdout sa \<and> stderr sb = stderr sa
            \<and> \<not> list_ex is_applied_remount (new_calls sa sb)
            \<and> (list_ex is_applied_remount (new_calls s sa) \<longrightarrow>
                 \<not> list_ex is_mount (new_calls sa sb))))"
proof (intro conjI impI)
  assume "Statvfs target (Some f_flag) \<in> set (new_calls s (final (do_remount K target writable s)))
      \<and> writable = (f_flag AND ST_RDONLY = 0)"
  then show "\<exists>s'. do_remount K target writable s = Return s'
            \<and> \<not> list_ex is_mount (new_calls s s')
            \<and> kern s' = kern s \<and> stdout s' = stdout s \<and> stderr s' = stderr s"
    by (auto simp add: do_remount_def Let_def called_simps new_calls_def
           split: option.splits sum.splits if_splits)
next
  assume a: "do_remount K target writable s = Return sa
      \<and> (\<forall>src tgt fl. Mount src tgt fl None \<in> set (new_calls s sa) \<longrightarrow>
           (\<forall>f. k_statvfs K (kern sa) tgt = Some f \<longrightarrow>
                (f AND ST_RDONLY \<noteq> 0) = (fl AND scast MS_RDONLY \<noteq> 0)))"
  show "\<exists>sb. do_remount K target writable sa = Return sb
            \<and> kern sb = kern sa \<and> stdout sb = stdout sa \<and> stderr sb = stderr sa
            \<and> \<not> list_ex is_applied_remount (new_calls sa sb)
            \<and> (list_ex is_applied_remount (new_calls s sa) \<longrightarrow>
                 \<not> list_ex is_mount (new_calls sa sb))"
  proof (cases "list_ex is_applied_remount (new_calls s sa)")
    case True
    with a have m: "Mount target target (scast (remount_flags writable)) None \<in> set (new_calls s sa)"
      by (auto simp add: do_remount_def Let_def called_simps new_calls_def
           split: option.splits sum.splits if_splits)
    with a have "\<forall>f. k_statvfs K (kern sa) target = Some f \<longrightarrow>
                (f AND ST_RDONLY \<noteq> 0) = ((scast (remount_flags writable) :: ulong) AND scast MS_RDONLY \<noteq> 0)"
      by blast
    then have "\<forall>f. k_statvfs K (kern sa) target = Some f \<longrightarrow> writable = (f AND ST_RDONLY = 0)"
      by (auto simp add: scast_flags hdr_defs)
    then show ?thesis
      by (auto simp add: do_remount_def Let_def called_simps new_calls_def
           split: option.splits sum.splits if_splits)
  next
    case False
    with a show ?thesis
      by (auto simp add: do_remount_def Let_def called_simps new_calls_def scast_flags hdr_defs
           split: option.splits sum.splits if_splits)
  qed
qed

theorem do_remount_idempotent_witness:
  "Statvfs ''/var'' (Some 0)
     \<in> set (new_calls (final (do_remount toy_kernel ''/var'' True (start toy_var_ro)))
          (final (do_remount toy_kernel ''/var'' True
                    (final (do_remount toy_kernel ''/var'' True (start toy_var_ro))))))
   \<and> True = ((0 :: ulong) AND ST_RDONLY = 0)
   \<and> exit_status (do_remount toy_kernel ''/var'' True (start toy_var_ro)) = None
   \<and> Mount ''/var'' ''/var'' 32800 None
       \<in> set (new_calls (start toy_var_ro) (final (do_remount toy_kernel ''/var'' True (start toy_var_ro))))
   \<and> list_ex is_applied_remount
        (new_calls (start toy_var_ro) (final (do_remount toy_kernel ''/var'' True (start toy_var_ro))))
   \<and> k_statvfs toy_kernel (kern (final (do_remount toy_kernel ''/var'' True (start toy_var_ro)))) ''/var''
       = Some 0
   \<and> ((0 :: ulong) AND ST_RDONLY \<noteq> 0) = ((32800 :: ulong) AND scast MS_RDONLY \<noteq> 0)
   \<and> exit_status (do_remount toy_kernel ''/var'' True
                    (final (do_remount toy_kernel ''/var'' True (start toy_var_ro)))) = None
   \<and> \<not> list_ex is_mount
        (new_calls (final (do_remount toy_kernel ''/var'' True (start toy_var_ro)))
          (final (do_remount toy_kernel ''/var'' True
                    (final (do_remount toy_kernel ''/var'' True (start toy_var_ro))))))"
proof -
  let ?s = "start toy_var_ro"
  let ?s1 = "final (do_remount toy_kernel ''/var'' True ?s)"
  let ?s2 = "final (do_remount toy_kernel ''/var'' True ?s1)"
  have h1: "Statvfs ''/var'' (Some 0) \<in> set (new_calls ?s1 ?s2)"
    by (simp add: toy_var_rw_again_run) (simp add: toy_var_rw_run new_calls_def)
  have h2: "True = ((0 :: ulong) AND ST_RDONLY = 0)"
    by simp
  have h3: "do_remount toy_kernel ''/var'' True ?s = Return ?s1"
    by (simp add: toy_var_rw_run)
  have h4: "list_ex is_applied_remount (new_calls ?s ?s1)"
    by (simp add: toy_var_rw_run new_calls_def start_simps hdr_defs)
  have h5: "k_statvfs toy_kernel (kern ?s1) ''/var'' = Some 0"
    by (simp add: toy_var_rw_run) (simp add: toy_defs)
  have h6: "Mount ''/var'' ''/var'' 32800 None \<in> set (new_calls ?s ?s1)"
    by (simp add: toy_var_rw_run new_calls_def start_simps)
  have h7: "((0 :: ulong) AND ST_RDONLY \<noteq> 0) = ((32800 :: ulong) AND scast MS_RDONLY \<noteq> 0)"
    by (simp add: hdr_defs)
  have h8: "\<forall>src tgt fl. Mount src tgt fl None \<in> set (new_calls ?s ?s1) \<longrightarrow>
           (\<forall>f. k_statvfs toy_kernel (kern ?s1) tgt = Some f \<longrightarrow>
                (f AND ST_RDONLY \<noteq> 0) = (fl AND scast MS_RDONLY \<noteq> 0))"
    using h5 h7 by (auto simp add: toy_var_rw_run new_calls_def start_simps)
  from do_remount_idempotent [where target = "''/var''" and f_flag = 0 and s = ?s1
                                and K = toy_kernel and writable = True]
       do_remount_idempotent [where target = "''/var''" and s = ?s and sa = ?s1
                                and K = toy_kernel and writable = True]
       h1 h2 h3 h4 h8
  have "\<exists>s2. do_remount toy_kernel ''/var'' True ?s1 = Return s2
            \<and> \<not> list_ex is_mount (new_calls ?s1 s2)"
    by blast
  then have "exit_status (do_remount toy_kernel ''/var'' True ?s1) = None
            \<and> \<not> list_ex is_mount (new_calls ?s1 ?s2)"
    by auto
  moreover have "exit_status (do_remount toy_kernel ''/var'' True ?s) = None"
    by (simp add: toy_var_rw_run)
  ultimately show ?thesis
    using h1 h2 h4 h5 h6 h7 by simp
qed

subsection \<open>The flags of the remount\<close>

text \<open>
  C7. Every \<^verbatim>\<open>mount\<close> call that \<^verbatim>\<open>do_remount\<close> issues has the target as both source and
  target, and its flags are exactly \<^verbatim>\<open>MS_REMOUNT | MS_SILENT\<close>, with \<^verbatim>\<open>MS_RDONLY\<close> added
  when \<^verbatim>\<open>writable\<close> is false: \<^verbatim>\<open>MS_REMOUNT\<close> and \<^verbatim>\<open>MS_SILENT\<close> are always set, and
  \<^verbatim>\<open>MS_RDONLY\<close> is set exactly when \<^verbatim>\<open>writable\<close> is false.
\<close>

theorem do_remount_flags:
  assumes "Mount src tgt fl r \<in> set (new_calls s (final (do_remount K target writable s)))"
  shows "src = target \<and> tgt = target
         \<and> fl = scast (MS_REMOUNT OR MS_SILENT OR (if writable then 0 else MS_RDONLY))
         \<and> fl AND scast MS_REMOUNT = scast MS_REMOUNT
         \<and> fl AND scast MS_SILENT = scast MS_SILENT
         \<and> (fl AND scast MS_RDONLY = scast MS_RDONLY \<longleftrightarrow> \<not> writable)"
  using assms
  by (auto simp add: do_remount_def Let_def new_calls_def trace_called scast_flags hdr_defs
           split: option.splits sum.splits if_splits)

theorem do_remount_flags_witness:
  "Mount ''/var'' ''/var'' 32800 None
     \<in> set (new_calls (start toy_var_ro) (final (do_remount toy_kernel ''/var'' True (start toy_var_ro))))
   \<and> (32800 :: ulong) = scast (MS_REMOUNT OR MS_SILENT OR (if True then 0 else MS_RDONLY))
   \<and> (32800 :: ulong) AND scast MS_REMOUNT = scast MS_REMOUNT
   \<and> (32800 :: ulong) AND scast MS_SILENT = scast MS_SILENT
   \<and> ((32800 :: ulong) AND scast MS_RDONLY = scast MS_RDONLY \<longleftrightarrow> \<not> True)"
proof -
  have h: "Mount ''/var'' ''/var'' 32800 None
     \<in> set (new_calls (start toy_var_ro) (final (do_remount toy_kernel ''/var'' True (start toy_var_ro))))"
    by (simp add: toy_var_rw_run new_calls_def start_simps)
  show ?thesis
    using h do_remount_flags [OF h] by simp
qed

subsection \<open>The order of the targets\<close>

text \<open>
  C8. The calls of the remount sequence (lines 135-160), for either value of
  \<^verbatim>\<open>sysroot_readonly\<close>, are three consecutive segments. The first is the calls of
  \<^verbatim>\<open>do_remount\<close> on \<^verbatim>\<open>/sysroot\<close>, requested writable exactly when the policy is not
  read-only. The second is empty when the policy is not read-only; under a read-only
  policy it is the \<^verbatim>\<open>/etc\<close> step, which starts with the bind mount of \<^verbatim>\<open>/etc\<close> onto
  itself and continues, if that succeeded, with the calls of \<^verbatim>\<open>do_remount\<close> on \<^verbatim>\<open>/etc\<close>
  requested writable (it is empty only if the run ended in the first segment). The third,
  last segment is the calls of \<^verbatim>\<open>do_remount\<close> on \<^verbatim>\<open>/var\<close>, requested writable under
  either policy; when it is there under a read-only policy, the bind mount succeeded and
  the remount of \<^verbatim>\<open>/etc\<close> came before it. The sequence always ends the process, with
  \<^verbatim>\<open>EXIT_SUCCESS\<close> or \<^verbatim>\<open>EXIT_FAILURE\<close>, and a run that exits with \<^verbatim>\<open>EXIT_SUCCESS\<close>
  has processed \<^verbatim>\<open>/var\<close>.
\<close>

theorem main_remounts_order:
  "\<exists>cs1 cs2 cs3.
     trace (final (main_remounts K sysroot_readonly s)) = trace s @ cs1 @ cs2 @ cs3
     \<and> remount_calls ''/sysroot'' (\<not> sysroot_readonly) cs1
     \<and> (if sysroot_readonly then cs2 = [] \<or> etc_calls cs2 else cs2 = [])
     \<and> (cs3 = [] \<or> remount_calls ''/var'' True cs3)
     \<and> (cs3 \<noteq> [] \<and> sysroot_readonly \<longrightarrow>
          (\<exists>rest. cs2 = Mount ''/etc'' ''/etc'' (scast MS_BIND) None # rest
                 \<and> remount_calls ''/etc'' True rest))
     \<and> (exit_status (main_remounts K sysroot_readonly s) = Some EXIT_SUCCESS \<longrightarrow> cs3 \<noteq> [])
     \<and> (exit_status (main_remounts K sysroot_readonly s) = Some EXIT_SUCCESS
        \<or> exit_status (main_remounts K sysroot_readonly s) = Some EXIT_FAILURE)"
  by (rule main_remounts_calls)

theorem main_remounts_order_witness:
  "exit_status (main_remounts toy_kernel True (start toy_var_ro)) = Some EXIT_SUCCESS
   \<and> trace (final (main_remounts toy_kernel True (start toy_var_ro))) =
        [Lstat ''/sysroot'' (Some 0x41ED), Statvfs ''/sysroot'' (Some 0),
         Mount ''/sysroot'' ''/sysroot'' 32801 None,
         Mount ''/etc'' ''/etc'' 4096 None,
         Lstat ''/etc'' (Some 0x41ED), Statvfs ''/etc'' (Some 0),
         Lstat ''/var'' (Some 0x41ED), Statvfs ''/var'' (Some 1),
         Mount ''/var'' ''/var'' 32800 None]
   \<and> (\<exists>cs1 rest cs3.
        trace (final (main_remounts toy_kernel True (start toy_var_ro))) =
          cs1 @ (Mount ''/etc'' ''/etc'' (scast MS_BIND) None # rest) @ cs3
        \<and> remount_calls ''/sysroot'' False cs1
        \<and> remount_calls ''/etc'' True rest
        \<and> remount_calls ''/var'' True cs3)
   \<and> exit_status (main_remounts toy_kernel False (start toy_var_ro)) = Some EXIT_SUCCESS
   \<and> trace (final (main_remounts toy_kernel False (start toy_var_ro))) =
        [Lstat ''/sysroot'' (Some 0x41ED), Statvfs ''/sysroot'' (Some 0),
         Lstat ''/var'' (Some 0x41ED), Statvfs ''/var'' (Some 1),
         Mount ''/var'' ''/var'' 32800 None]
   \<and> (\<exists>cs1 cs3.
        trace (final (main_remounts toy_kernel False (start toy_var_ro))) = cs1 @ cs3
        \<and> remount_calls ''/sysroot'' True cs1
        \<and> remount_calls ''/var'' True cs3)"
proof -
  have h: "exit_status (main_remounts toy_kernel True (start toy_var_ro)) = Some EXIT_SUCCESS"
    by (simp add: toy_readonly_policy_run EXIT_SUCCESS_def)
  from main_remounts_order [of toy_kernel True "start toy_var_ro"] h
  obtain cs1 cs2 cs3 where d:
      "trace (final (main_remounts toy_kernel True (start toy_var_ro))) = cs1 @ cs2 @ cs3"
      "remount_calls ''/sysroot'' False cs1"
      "cs3 = [] \<or> remount_calls ''/var'' True cs3"
      "cs3 \<noteq> [] \<longrightarrow>
         (\<exists>rest. cs2 = Mount ''/etc'' ''/etc'' (scast MS_BIND) None # rest
                \<and> remount_calls ''/etc'' True rest)"
      "cs3 \<noteq> []"
    by (auto simp add: start_simps)
  from d(4,5) obtain rest where r:
      "cs2 = Mount ''/etc'' ''/etc'' (scast MS_BIND) None # rest" "remount_calls ''/etc'' True rest"
    by blast
  from d(1,2,3,5) r
  have a: "\<exists>cs1 rest cs3.
        trace (final (main_remounts toy_kernel True (start toy_var_ro))) =
          cs1 @ (Mount ''/etc'' ''/etc'' (scast MS_BIND) None # rest) @ cs3
        \<and> remount_calls ''/sysroot'' False cs1
        \<and> remount_calls ''/etc'' True rest
        \<and> remount_calls ''/var'' True cs3"
    by blast
  have h': "exit_status (main_remounts toy_kernel False (start toy_var_ro)) = Some EXIT_SUCCESS"
    by (simp add: toy_writable_policy_run EXIT_SUCCESS_def)
  from main_remounts_order [of toy_kernel False "start toy_var_ro"] h'
  have b: "\<exists>cs1 cs3.
        trace (final (main_remounts toy_kernel False (start toy_var_ro))) = cs1 @ cs3
        \<and> remount_calls ''/sysroot'' True cs1
        \<and> remount_calls ''/var'' True cs3"
    by (auto simp add: start_simps)
  from a b h h' show ?thesis
    by (simp add: toy_readonly_policy_run toy_writable_policy_run)
qed

subsection \<open>The policy in effect\<close>

text \<open>
  C9. Whatever the system answers about the configuration file,
  \<^verbatim>\<open>sysroot_is_configured_ro\<close> returns false. So a run of \<^verbatim>\<open>main\<close> that gets past the
  probe of the root file system is \<^verbatim>\<open>do_remount ("/sysroot", true)\<close> followed by
  \<^verbatim>\<open>do_remount ("/var", true)\<close> and the exit; and in every run of \<^verbatim>\<open>main\<close> no call
  concerns \<^verbatim>\<open>/etc\<close> (neither the bind mount nor a call of the remount of \<^verbatim>\<open>/etc\<close>) and
  no remount to read-only is issued.
\<close>

theorem main_policy_never_readonly:
  "fst (sysroot_is_configured_ro K s) = False
   \<and> (\<not> root_found_readonly K k \<longrightarrow>
        (\<exists>s0. main K k =
                then_run (do_remount K ''/sysroot'' True s0) (\<lambda>s.
                then_run (do_remount K ''/var'' True s) (\<lambda>s. Exit EXIT_SUCCESS s))))
   \<and> \<not> list_ex (\<lambda>c. call_path c = Some ''/etc'') (trace (final (main K k)))
   \<and> \<not> list_ex is_readonly_remount (trace (final (main K k)))"
proof (intro conjI impI)
  show "fst (sysroot_is_configured_ro K s) = False"
    by (simp add: sysroot_is_configured_ro_def Let_def split: option.splits)
next
  assume "\<not> root_found_readonly K k"
  from main_writable_root_run [OF this]
  show "\<exists>s0. main K k =
                then_run (do_remount K ''/sysroot'' True s0) (\<lambda>s.
                then_run (do_remount K ''/var'' True s) (\<lambda>s. Exit EXIT_SUCCESS s))"
    by (auto simp add: main_remounts_False)
next
  have "\<not> list_ex (\<lambda>c. call_path c = Some ''/etc'') (trace (final (main K k)))
        \<and> \<not> list_ex is_readonly_remount (trace (final (main K k)))"
  proof (cases "root_found_readonly K k")
    case True
    obtain r where "trace (privatize_sysroot K (touch_run_ostree K (start k))) =
      [TouchRunOstree, Mount ''none'' ''/sysroot'' (scast (MS_REC OR MS_PRIVATE)) r]"
      using privatize_sysroot_trace [of K "touch_run_ostree K (start k)"]
      by (auto simp add: touch_run_ostree_simps start_simps)
    then show ?thesis
      by (simp add: main_readonly_root_run [OF True] called_simps private_flags hdr_defs)
  next
    case False
    obtain s0 r cfg where s0: "main K k = main_remounts K False s0"
      "trace s0 = [TouchRunOstree, Mount ''none'' ''/sysroot'' (scast (MS_REC OR MS_PRIVATE)) r,
                   PathIsOnReadonlyFs ''/'' False] @ cfg"
      "list_all is_config_call cfg"
      "list_all (\<lambda>c. call_path c = None \<or> call_path c = Some config_path) cfg"
      using main_writable_root_run [OF False] by blast
    obtain cs1 cs3 where cs: "trace (final (main K k)) = trace s0 @ cs1 @ cs3"
      "remount_calls ''/sysroot'' True cs1" "cs3 = [] \<or> remount_calls ''/var'' True cs3"
      using main_remounts_calls [of K False s0] unfolding s0(1) by auto
    have pre: "\<forall>c \<in> set (trace s0). call_path c \<noteq> Some ''/etc'' \<and> \<not> is_readonly_remount c"
      using s0(3,4) config_call_not_readonly_remount
      by (auto simp add: s0(2) list_all_iff config_path_def private_flags hdr_defs)
    have c1: "\<forall>c \<in> set cs1. call_path c \<noteq> Some ''/etc'' \<and> \<not> is_readonly_remount c"
      using remount_calls_writable [OF cs(2)] by auto
    have c3: "\<forall>c \<in> set cs3. call_path c \<noteq> Some ''/etc'' \<and> \<not> is_readonly_remount c"
      using cs(3) remount_calls_writable [of "''/var''" cs3] by auto
    show ?thesis
      using pre c1 c3 by (auto simp add: cs(1) list_ex_iff)
  qed
  then show "\<not> list_ex (\<lambda>c. call_path c = Some ''/etc'') (trace (final (main K k)))"
    and "\<not> list_ex is_readonly_remount (trace (final (main K k)))"
    by simp_all
qed

theorem main_policy_never_readonly_witness:
  "\<not> root_found_readonly toy_kernel (toy_var_ro\<lparr>t_config := Some True\<rparr>)
   \<and> KeyFileGetBoolean ''sysroot'' ''readonly'' True
        \<in> set (trace (final (main toy_kernel (toy_var_ro\<lparr>t_config := Some True\<rparr>))))
   \<and> fst (sysroot_is_configured_ro toy_kernel (start (toy_var_ro\<lparr>t_config := Some True\<rparr>))) = False
   \<and> exit_status (main toy_kernel (toy_var_ro\<lparr>t_config := Some True\<rparr>)) = Some EXIT_SUCCESS
   \<and> \<not> list_ex (\<lambda>c. call_path c = Some ''/etc'')
          (trace (final (main toy_kernel (toy_var_ro\<lparr>t_config := Some True\<rparr>))))
   \<and> \<not> list_ex is_readonly_remount
          (trace (final (main toy_kernel (toy_var_ro\<lparr>t_config := Some True\<rparr>))))"
proof -
  let ?k = "toy_var_ro\<lparr>t_config := Some True\<rparr>"
  have h1: "\<not> root_found_readonly toy_kernel ?k"
    by (simp add: root_found_readonly_def touch_run_ostree_def privatize_sysroot_def called_def
          private_flags toy_defs)
  have h2: "KeyFileGetBoolean ''sysroot'' ''readonly'' True \<in> set (trace (final (main toy_kernel ?k)))"
    by (simp add: toy_config_true_main)
  have h3: "exit_status (main toy_kernel ?k) = Some EXIT_SUCCESS"
    by (simp add: toy_config_true_main EXIT_SUCCESS_def)
  from main_policy_never_readonly [of toy_kernel "start ?k" ?k] h1 h2 h3
  show ?thesis by blast
qed

subsection \<open>The configuration file under a read-only root\<close>

text \<open>
  C10. If the probe finds the root file system read-only, the run does not depend on
  the configuration file: replacing what \<^verbatim>\<open>stat\<close> and \<^verbatim>\<open>g_key_file_load_from_file\<close>
  answer by anything else gives the same run (exit status, system state, calls, output
  and error messages). The run makes no call that reads the configuration, and its
  standard output is empty, so the notice of the ignored setting is not in it.
\<close>

theorem main_readonly_root_ignores_config:
  assumes "root_found_readonly K k"
  shows "main (K\<lparr>k_stat := st, k_key_file_load_from_file := ld\<rparr>) k = main K k
         \<and> \<not> list_ex is_config_call (trace (final (main K k)))
         \<and> stdout (final (main K k)) = []"
proof -
  let ?K' = "K\<lparr>k_stat := st, k_key_file_load_from_file := ld\<rparr>"
  have same: "privatize_sysroot ?K' s = privatize_sysroot K s"
             "touch_run_ostree ?K' s = touch_run_ostree K s" for s
    by (simp_all add: privatize_sysroot_def touch_run_ostree_def)
  have "root_found_readonly ?K' k"
    using assms by (simp add: root_found_readonly_def same)
  then have "main ?K' k = main K k"
    by (simp add: main_readonly_root_run assms same)
  moreover
  obtain r where r: "trace (privatize_sysroot K (touch_run_ostree K (start k))) =
      [TouchRunOstree, Mount ''none'' ''/sysroot'' (scast (MS_REC OR MS_PRIVATE)) r]"
    using privatize_sysroot_trace [of K "touch_run_ostree K (start k)"]
    by (auto simp add: touch_run_ostree_simps start_simps)
  have "\<not> list_ex is_config_call (trace (final (main K k)))"
    using r by (simp add: main_readonly_root_run [OF assms] called_simps)
  moreover have "stdout (final (main K k)) = []"
    by (simp add: main_readonly_root_run [OF assms] called_simps privatize_sysroot_stdout
          touch_run_ostree_simps start_simps)
  ultimately show ?thesis by simp
qed

theorem main_readonly_root_ignores_config_witness:
  "root_found_readonly toy_kernel (toy_var_ro\<lparr>t_readonly := [''/'', ''/var'']\<rparr>)
   \<and> main (toy_kernel\<lparr>k_stat := \<lambda>k p. True,
                       k_key_file_load_from_file := \<lambda>k p. Some (\<lambda>g key. True)\<rparr>)
          (toy_var_ro\<lparr>t_readonly := [''/'', ''/var'']\<rparr>)
       = main toy_kernel (toy_var_ro\<lparr>t_readonly := [''/'', ''/var'']\<rparr>)
   \<and> stdout (final (main (toy_kernel\<lparr>k_stat := \<lambda>k p. True,
                       k_key_file_load_from_file := \<lambda>k p. Some (\<lambda>g key. True)\<rparr>)
          (toy_var_ro\<lparr>t_readonly := [''/'', ''/var'']\<rparr>))) = []"
  using toy_root_ro_found
    main_readonly_root_ignores_config [OF toy_root_ro_found,
      where st = "\<lambda>k p. True" and ld = "\<lambda>k p. Some (\<lambda>g key. True)"]
  by simp

end
